theory Spec2Isabelle
  imports Main
begin

section \<open>The branch collection of Rugged (ext/rugged/rugged\_branch\_collection.c)\<close>

text \<open>
  The file is glue between the Ruby runtime and the reference store of the wrapped
  engine. The embedding has three layers:
  \<^item> the Ruby values the functions receive and return (\<open>VALUE\<close>), with every
    \<open>rb_raise\<close> and every failed \<open>Check_Type\<close> as an \<open>Inl\<close> of a sum type;
  \<^item> the reference store, a record that is passed through every call and returned
    updated; the engine's entry points are not part of the file and are modelled from
    the specification;
  \<^item> the functions of the file themselves, one definition each, under their C names.
\<close>

subsection \<open>Ruby values and exceptions\<close>

text \<open>
  The engine's functions return an \<open>int\<close>: \<open>GIT_OK\<close> or a negative error code.
  In the model such a result is a sum: \<open>Inl\<close> of the error code, or \<open>Inr\<close> of what
  the call hands out on \<open>GIT_OK\<close>, so that \<open>error == GIT_OK\<close> reads "is an
  \<open>Inr\<close>" and \<open>error == GIT_ENOTFOUND\<close> reads "is \<open>Inl GIT_ENOTFOUND\<close>".
  \<open>GIT_BRANCH_LOCAL_OR_REMOTE\<close> stands for the flag set
  \<open>GIT_BRANCH_LOCAL | GIT_BRANCH_REMOTE\<close>. \<open>rb_type\<close> is the macro \<open>TYPE\<close>
  of the Ruby runtime. Among the exceptions, \<open>RuggedError e\<close> is what
  \<open>rugged_exception_check\<close> raises for the error code \<open>e\<close>, and \<open>JumpTag t\<close> is
  \<open>rb_jump_tag(t)\<close>, the exception of the caller's block taken up again.
\<close>

datatype git_error_code =
  GIT_ERROR | GIT_ENOTFOUND | GIT_EEXISTS | GIT_EINVALIDSPEC | GIT_ITEROVER

datatype git_target = Direct string | Symbolic string

record git_reference =
  ref_name :: string
  ref_target :: git_target

datatype git_branch_t = GIT_BRANCH_LOCAL | GIT_BRANCH_REMOTE | GIT_BRANCH_LOCAL_OR_REMOTE

datatype ruby_type =
  T_NIL | T_TRUE | T_FALSE | T_STRING | T_SYMBOL | T_FIXNUM | T_DATA | T_OBJECT

text \<open>
  \<open>RuggedBranch r\<close> is an instance of \<open>Rugged::Branch\<close> wrapping the reference \<open>r\<close>
  (what \<open>rugged_branch_new\<close> builds). \<open>BranchSubclass v\<close> is an instance of a class
  derived from \<open>Rugged::Branch\<close> whose \<open>#canonical_name\<close> answers \<open>v\<close>: the source
  guards against such an answer not being a String. \<open>REnumerator m a\<close> is the lazy
  enumerator \<open>to_enum(m, a)\<close>.
\<close>

datatype VALUE =
  Qnil | Qtrue | Qfalse
  | RString string
  | RSymbol string
  | RFixnum int
  | RuggedBranch git_reference
  | BranchSubclass VALUE
  | REnumerator string VALUE

datatype rb_exception =
  TypeError string
  | ArgumentError string
  | RuggedError git_error_code
  | InvalidTarget
  | JumpTag int

type_synonym 'a rb_result = "rb_exception + 'a"
type_synonym 'a git_result = "git_error_code + 'a"

fun rb_type :: "VALUE \<Rightarrow> ruby_type" where
  "rb_type Qnil = T_NIL"
| "rb_type Qtrue = T_TRUE"
| "rb_type Qfalse = T_FALSE"
| "rb_type (RString s) = T_STRING"
| "rb_type (RSymbol s) = T_SYMBOL"
| "rb_type (RFixnum i) = T_FIXNUM"
| "rb_type (RuggedBranch r) = T_DATA"
| "rb_type (BranchSubclass v) = T_DATA"
| "rb_type (REnumerator m a) = T_OBJECT"

fun type_name :: "ruby_type \<Rightarrow> string" where
  "type_name T_NIL = ''nil''"
| "type_name T_TRUE = ''true''"
| "type_name T_FALSE = ''false''"
| "type_name T_STRING = ''String''"
| "type_name T_SYMBOL = ''Symbol''"
| "type_name T_FIXNUM = ''Fixnum''"
| "type_name T_DATA = ''Data''"
| "type_name T_OBJECT = ''Object''"

text \<open>
  \<open>Check_Type(v, t)\<close> of the Ruby runtime: a TypeError unless \<open>v\<close> has the built-in
  type \<open>t\<close>. The runtime's message is \<open>wrong argument type C (expected T)\<close>; the
  class \<open>C\<close> of the argument is left out of the modelled message.
\<close>

definition Check_Type :: "VALUE \<Rightarrow> ruby_type \<Rightarrow> unit rb_result" where
  "Check_Type v t =
     (if rb_type v = t then Inr ()
      else Inl (TypeError (''wrong argument type (expected '' @ type_name t @ '')'')))"

text \<open>
  \<open>StringValueCStr\<close> of the Ruby runtime hands out the bytes of a String as a C string
  and raises ArgumentError when the String holds a NUL byte. Every call of the source is
  behind a \<open>T_STRING\<close> test.
\<close>

fun StringValueCStr :: "VALUE \<Rightarrow> string rb_result" where
  "StringValueCStr (RString s) =
     (if CHR 0x00 \<in> set s then Inl (ArgumentError ''string contains null byte'')
      else Inr s)"
| "StringValueCStr v = Inl (TypeError ''no implicit conversion into String'')"

fun rb_obj_is_kind_of_RuggedBranch :: "VALUE \<Rightarrow> bool" where
  "rb_obj_is_kind_of_RuggedBranch (RuggedBranch r) = True"
| "rb_obj_is_kind_of_RuggedBranch (BranchSubclass v) = True"
| "rb_obj_is_kind_of_RuggedBranch v = False"

text \<open>
  \<open>rb_funcall(b, rb_intern("canonical_name"), 0)\<close> on a branch handle: the qualified
  name of the wrapped reference, or whatever a derived class answers.
\<close>

fun canonical_name :: "VALUE \<Rightarrow> VALUE" where
  "canonical_name (RuggedBranch r) = RString (ref_name r)"
| "canonical_name (BranchSubclass v) = v"
| "canonical_name v = Qnil"

text \<open>\<open>strncmp(s, p, strlen(p)) == 0\<close>: the C string \<open>s\<close> begins with \<open>p\<close>.\<close>

definition strncmp_eq :: "string \<Rightarrow> string \<Rightarrow> bool" where
  "strncmp_eq s p = (take (length p) s = p)"

subsection \<open>The reference store\<close>

text \<open>
  The operations the store is asked to perform, in the vocabulary of the specification's
  raw reference primitives (\<open>refGet\<close>, \<open>refCreate\<close>, \<open>refDelete\<close>, \<open>refRename\<close>,
  \<open>refIterator\<close>). The store keeps a journal of them, so that the order of the
  accesses a function makes, and the accesses it does not make, can be stated.
\<close>

datatype store_op =
  RefGet string
  | RefCreate string string bool
  | RefDelete string
  | RefRename string string bool
  | IterOpen git_branch_t
  | IterNext nat
  | IterClose

datatype git_otype = GIT_OBJ_COMMIT | GIT_OBJ_TREE | GIT_OBJ_BLOB | GIT_OBJ_TAG

text \<open>
  \<open>refs\<close> is the mapping from reference name to target, in store-native order (the
  first entry for a name is the one in force). \<open>odb\<close> gives the kind of each object
  the object store holds. \<open>fault\<close> is the environment: the store may answer an
  operation with an error of its own (an invalid name, a durable-storage failure)
  instead of carrying it out. \<open>cursors\<close> counts the store-native iterators that have
  been acquired and not yet released. \<open>unset_pointer_uses\<close> counts the calls in which
  the engine was handed an iterator pointer that no call had set: the C language gives
  such a call no meaning, so a run in which the count grows has left defined behaviour.
\<close>

record git_repository =
  refs :: "(string \<times> git_target) list"
  odb :: "(string \<times> git_otype) list"
  fault :: "store_op \<Rightarrow> git_error_code option"
  journal :: "store_op list"
  cursors :: nat
  unset_pointer_uses :: nat

definition record_op :: "store_op \<Rightarrow> git_repository \<Rightarrow> git_repository" where
  "record_op op repo = repo\<lparr>journal := journal repo @ [op]\<rparr>"

text \<open>
  Modelled from the spec: \<open>git_reference_lookup\<close> belongs to the wrapped engine and is
  not in the file. Section 4.1: \<open>lookup(name) -> Reference | NotFound\<close>, with the store's
  other errors (InvalidName, IOError) coming from the environment.
\<close>

definition git_reference_lookup ::
  "git_repository \<Rightarrow> string \<Rightarrow> git_reference git_result \<times> git_repository" where
  "git_reference_lookup repo name =
     (let repo' = record_op (RefGet name) repo in
      case fault repo (RefGet name) of
        Some e \<Rightarrow> (Inl e, repo')
      | None \<Rightarrow>
          (case map_of (refs repo) name of
             None \<Rightarrow> (Inl GIT_ENOTFOUND, repo')
           | Some t \<Rightarrow> (Inr \<lparr>ref_name = name, ref_target = t\<rparr>, repo')))"

text \<open>
  Modelled from the spec: \<open>git_branch_lookup\<close> belongs to the wrapped engine and is not
  in the file. Section 4.2: a lookup as a local branch reads \<open>refs/heads/<name>\<close>, a
  lookup as a remote branch reads \<open>refs/remotes/<name>\<close>.
\<close>

fun branch_namespace :: "git_branch_t \<Rightarrow> string" where
  "branch_namespace GIT_BRANCH_REMOTE = ''refs/remotes/''"
| "branch_namespace t = ''refs/heads/''"

definition git_branch_lookup ::
  "git_repository \<Rightarrow> string \<Rightarrow> git_branch_t \<Rightarrow> git_reference git_result \<times> git_repository" where
  "git_branch_lookup repo branch_name branch_type =
     git_reference_lookup repo (branch_namespace branch_type @ branch_name)"

subsection \<open>Name resolution: \<open>rugged_branch_lookup\<close>\<close>

text \<open>
  The C function returns the engine's error code and fills the out-parameter
  \<open>branch\<close>; both are the inner sum of the result. The outer sum is a Ruby exception
  raised inside the function.
\<close>

definition rugged_branch_lookup ::
  "git_repository \<Rightarrow> VALUE \<Rightarrow> (git_reference git_result) rb_result \<times> git_repository" where
  "rugged_branch_lookup repo rb_name_or_branch =
     (if rb_obj_is_kind_of_RuggedBranch rb_name_or_branch then
        (let rb_name = canonical_name rb_name_or_branch in
         if rb_type rb_name \<noteq> T_STRING then
           (Inl (TypeError ''Expected #canonical_name to return a String''), repo)
         else
           (case StringValueCStr rb_name of
              Inl exc \<Rightarrow> (Inl exc, repo)
            | Inr name \<Rightarrow>
                (let (error, repo1) = git_reference_lookup repo name
                 in (Inr error, repo1))))
      else if rb_type rb_name_or_branch = T_STRING then
        (case StringValueCStr rb_name_or_branch of
           Inl exc \<Rightarrow> (Inl exc, repo)
         | Inr branch_name \<Rightarrow>
             if strncmp_eq branch_name ''refs/heads/'' \<or>
                strncmp_eq branch_name ''refs/remotes/'' \<or>
                branch_name = ''HEAD''
             then
               (let (error, repo1) = git_reference_lookup repo branch_name
                in (Inr error, repo1))
             else
               (let (error, repo1) = git_branch_lookup repo branch_name GIT_BRANCH_LOCAL in
                if error \<noteq> Inl GIT_ENOTFOUND then (Inr error, repo1)
                else
                  (let (error, repo2) = git_branch_lookup repo1 branch_name GIT_BRANCH_REMOTE in
                   if error \<noteq> Inl GIT_ENOTFOUND then (Inr error, repo2)
                   else
                     (let ref_name = ''refs/'' @ branch_name;
                          (error, repo3) = git_reference_lookup repo2 ref_name
                      in (Inr error, repo3)))))
      else (Inl (TypeError ''Expecting a String or Rugged::Branch instance''), repo))"

subsection \<open>Helpers of the binding that live in other files\<close>

text \<open>
  Modelled from the spec: \<open>rugged_exception_check\<close> is declared in rugged.h, which is
  not among the sources. Section 6: a fallible call raises a typed error to the host on
  failure; a call that returned no error code goes on.
\<close>

definition rugged_exception_check :: "'a git_result \<Rightarrow> 'a rb_result" where
  "rugged_exception_check error =
     (case error of Inl e \<Rightarrow> Inl (RuggedError e) | Inr x \<Rightarrow> Inr x)"

text \<open>
  Modelled from the spec: \<open>rugged_parse_bool\<close> is declared in rugged.h, which is not
  among the sources. Sections 4.3 and 7: the force flag is a boolean, and a
  caller-supplied argument of the wrong kind is a type mismatch.
\<close>

fun rugged_parse_bool :: "VALUE \<Rightarrow> bool rb_result" where
  "rugged_parse_bool Qtrue = Inr True"
| "rugged_parse_bool Qfalse = Inr False"
| "rugged_parse_bool v = Inl (TypeError ''Expected boolean value'')"

text \<open>
  Modelled from the spec: \<open>rugged_object_get\<close> is defined in rugged\_object.c, which is
  not among the sources. Section 6: \<open>resolveCommit(id_or_revision) -> CommitId |
  NotFound | InvalidTarget\<close>; section 4.3: the target must resolve to an existing
  commit, else the operation fails with InvalidTarget.
\<close>

datatype resolve_failure = NotFound | NotACommit

definition resolveCommit :: "git_repository \<Rightarrow> string \<Rightarrow> resolve_failure + string" where
  "resolveCommit repo revision =
     (case map_of (odb repo) revision of
        None \<Rightarrow> Inl NotFound
      | Some GIT_OBJ_COMMIT \<Rightarrow> Inr revision
      | Some t \<Rightarrow> Inl NotACommit)"

fun rugged_object_get :: "git_repository \<Rightarrow> VALUE \<Rightarrow> string rb_result" where
  "rugged_object_get repo (RString revision) =
     (case resolveCommit repo revision of Inl f \<Rightarrow> Inl InvalidTarget | Inr commit \<Rightarrow> Inr commit)"
| "rugged_object_get repo v = Inl InvalidTarget"

text \<open>\<open>rugged_branch_new\<close> wraps the reference in a fresh \<open>Rugged::Branch\<close>.\<close>

definition rugged_branch_new :: "git_reference \<Rightarrow> VALUE" where
  "rugged_branch_new ref = RuggedBranch ref"

text \<open>
  \<open>rb_scan_args\<close> of the Ruby runtime with the formats \<open>"21"\<close> (two mandatory
  arguments and an optional one, nil when absent) and \<open>"01"\<close> (one optional argument).
\<close>

fun rb_scan_args_21 :: "VALUE list \<Rightarrow> (VALUE \<times> VALUE \<times> VALUE) rb_result" where
  "rb_scan_args_21 [a, b] = Inr (a, b, Qnil)"
| "rb_scan_args_21 [a, b, c] = Inr (a, b, c)"
| "rb_scan_args_21 argv = Inl (ArgumentError ''wrong number of arguments'')"

fun rb_scan_args_01 :: "VALUE list \<Rightarrow> VALUE rb_result" where
  "rb_scan_args_01 [] = Inr Qnil"
| "rb_scan_args_01 [a] = Inr a"
| "rb_scan_args_01 argv = Inl (ArgumentError ''wrong number of arguments'')"

text \<open>Symbols are interned names: the ID of a symbol is its name.\<close>

fun SYM2ID :: "VALUE \<Rightarrow> string" where
  "SYM2ID (RSymbol s) = s"
| "SYM2ID v = []"

definition rb_intern :: "string \<Rightarrow> string" where
  "rb_intern s = s"

definition rb_str_new_utf8 :: "string \<Rightarrow> VALUE" where
  "rb_str_new_utf8 s = RString s"

subsection \<open>Writing to the reference store\<close>

text \<open>
  Modelled from the spec: \<open>git_branch_create\<close> belongs to the wrapped engine and is not
  in the file. Section 4.1: \<open>create(name, target, force) -> Reference\<close> fails with
  AlreadyExists unless \<open>force\<close>, which overwrites; section 4.3: the branch manager
  writes \<open>refs/heads/<name>\<close>.
\<close>

definition git_branch_create ::
  "git_repository \<Rightarrow> string \<Rightarrow> string \<Rightarrow> bool \<Rightarrow> git_reference git_result \<times> git_repository" where
  "git_branch_create repo branch_name target force =
     (let name = ''refs/heads/'' @ branch_name;
          op = RefCreate name target force;
          repo' = record_op op repo
      in case fault repo op of
           Some e \<Rightarrow> (Inl e, repo')
         | None \<Rightarrow>
             if map_of (refs repo) name \<noteq> None \<and> \<not> force then (Inl GIT_EEXISTS, repo')
             else (Inr \<lparr>ref_name = name, ref_target = Direct target\<rparr>,
                   repo'\<lparr>refs := (name, Direct target) # filter (\<lambda>(n, t). n \<noteq> name) (refs repo)\<rparr>))"

text \<open>
  Modelled from the spec: \<open>git_branch_delete\<close> belongs to the wrapped engine and is not
  in the file. Section 4.1: \<open>delete(reference)\<close> removes the reference's entry.
\<close>

definition git_branch_delete ::
  "git_repository \<Rightarrow> git_reference \<Rightarrow> unit git_result \<times> git_repository" where
  "git_branch_delete repo branch =
     (let op = RefDelete (ref_name branch);
          repo' = record_op op repo
      in case fault repo op of
           Some e \<Rightarrow> (Inl e, repo')
         | None \<Rightarrow>
             (Inr (), repo'\<lparr>refs := filter (\<lambda>(n, t). n \<noteq> ref_name branch) (refs repo)\<rparr>))"

text \<open>
  Modelled from the spec: \<open>git_branch_move\<close> belongs to the wrapped engine and is not
  in the file. Section 4.3: the underlying reference is renamed to
  \<open>refs/heads/<new_name>\<close> whatever the namespace of the old branch, keeping its target;
  \<open>force\<close> controls the overwrite of a reference at the destination, and the
  operation fails with AlreadyExists unless \<open>force\<close>.
\<close>

definition git_branch_move ::
  "git_repository \<Rightarrow> git_reference \<Rightarrow> string \<Rightarrow> bool \<Rightarrow> git_reference git_result \<times> git_repository" where
  "git_branch_move repo branch new_branch_name force =
     (let name = ''refs/heads/'' @ new_branch_name;
          op = RefRename (ref_name branch) name force;
          repo' = record_op op repo
      in case fault repo op of
           Some e \<Rightarrow> (Inl e, repo')
         | None \<Rightarrow>
             if map_of (refs repo) name \<noteq> None \<and> \<not> force then (Inl GIT_EEXISTS, repo')
             else (Inr \<lparr>ref_name = name, ref_target = ref_target branch\<rparr>,
                   repo'\<lparr>refs := (name, ref_target branch) #
                     filter (\<lambda>(n, t). n \<noteq> ref_name branch \<and> n \<noteq> name) (refs repo)\<rparr>))"

subsection \<open>Iterating over the reference store\<close>

record git_branch_iterator =
  pending :: "git_reference list"
  position :: nat

fun branch_type_of :: "string \<Rightarrow> git_branch_t option" where
  "branch_type_of name =
     (if strncmp_eq name ''refs/heads/'' then Some GIT_BRANCH_LOCAL
      else if strncmp_eq name ''refs/remotes/'' then Some GIT_BRANCH_REMOTE
      else None)"

fun filter_selects :: "git_branch_t \<Rightarrow> git_branch_t option \<Rightarrow> bool" where
  "filter_selects f None = False"
| "filter_selects GIT_BRANCH_LOCAL_OR_REMOTE (Some t) = True"
| "filter_selects f (Some t) = (f = t)"

text \<open>
  Modelled from the spec: \<open>git_branch_iterator_new\<close>, \<open>git_branch_next\<close> and
  \<open>git_branch_iterator_free\<close> belong to the wrapped engine and are not in the file.
  Sections 4.1 and 4.4: \<open>iterate(filter)\<close> walks the references of the store that the
  filter selects, in store-native order; \<open>next\<close> yields the next one, classified Local
  or Remote, reports the end of the sequence, or reports a store error; section 5: the
  cursor is held open until it is released.

  \<open>git_branch_iterator_new\<close> returns an error code like every other call of the
  engine, and the store may fail it. It sets the caller's pointer on success only: the
  pointer variable of the caller is an option, \<open>None\<close> as long as no call has set it.
  What \<open>git_branch_next\<close> and \<open>git_branch_iterator_free\<close> do with an unset pointer
  is not defined; the model records the call, counts it in \<open>unset_pointer_uses\<close>, and
  lets \<open>git_branch_next\<close> answer the generic error so that every run has an end.
  Nothing is meant by that answer: a state whose count has grown is outside defined
  behaviour.
\<close>

definition git_branch_iterator_new ::
  "git_repository \<Rightarrow> git_branch_t \<Rightarrow>
     unit git_result \<times> git_branch_iterator option \<times> git_repository" where
  "git_branch_iterator_new repo list_flags =
     (let op = IterOpen list_flags;
          repo' = record_op op repo
      in case fault repo op of
           Some e \<Rightarrow> (Inl e, None, repo')
         | None \<Rightarrow>
             (Inr (),
              Some \<lparr>pending = map (\<lambda>(n, t). \<lparr>ref_name = n, ref_target = t\<rparr>)
                      (filter (\<lambda>(n, t). filter_selects list_flags (branch_type_of n))
                         (refs repo)),
                    position = 0\<rparr>,
              repo'\<lparr>cursors := cursors repo + 1\<rparr>))"

definition git_branch_next ::
  "git_branch_iterator option \<Rightarrow> git_repository \<Rightarrow>
     (git_reference \<times> git_branch_t) git_result \<times> git_branch_iterator option \<times>
     git_repository" where
  "git_branch_next iter_ptr repo =
     (case iter_ptr of
        None \<Rightarrow>
          (Inl GIT_ERROR, None,
           (record_op (IterNext 0) repo)\<lparr>unset_pointer_uses := unset_pointer_uses repo + 1\<rparr>)
      | Some iter \<Rightarrow>
          (let op = IterNext (position iter);
               repo' = record_op op repo
           in case fault repo op of
                Some e \<Rightarrow> (Inl e, Some iter, repo')
              | None \<Rightarrow>
                  (case pending iter of
                     [] \<Rightarrow> (Inl GIT_ITEROVER, Some iter, repo')
                   | branch # rest \<Rightarrow>
                       (Inr (branch,
                             (if strncmp_eq (ref_name branch) ''refs/remotes/''
                              then GIT_BRANCH_REMOTE else GIT_BRANCH_LOCAL)),
                        Some (iter\<lparr>pending := rest, position := position iter + 1\<rparr>),
                        repo'))))"

definition git_branch_iterator_free ::
  "git_branch_iterator option \<Rightarrow> git_repository \<Rightarrow> git_repository" where
  "git_branch_iterator_free iter_ptr repo =
     (case iter_ptr of
        None \<Rightarrow>
          (record_op IterClose repo)\<lparr>unset_pointer_uses := unset_pointer_uses repo + 1\<rparr>
      | Some iter \<Rightarrow> (record_op IterClose repo)\<lparr>cursors := cursors repo - 1\<rparr>)"

definition pending_count :: "git_branch_iterator option \<Rightarrow> nat" where
  "pending_count iter_ptr = (case iter_ptr of None \<Rightarrow> 0 | Some iter \<Rightarrow> length (pending iter))"

text \<open>
  Modelled from the spec: \<open>git_reference_shorthand\<close> belongs to the wrapped engine and
  is not in the file. Glossary: the shorthand name is the name with its namespace prefix
  stripped.
\<close>

definition git_reference_shorthand :: "git_reference \<Rightarrow> string" where
  "git_reference_shorthand ref =
     (let name = ref_name ref in
      if strncmp_eq name ''refs/heads/'' then drop (length ''refs/heads/'') name
      else if strncmp_eq name ''refs/remotes/'' then drop (length ''refs/remotes/'') name
      else name)"

subsection \<open>The methods of the collection\<close>

text \<open>
  Each method receives the repository that owns the collection and returns it updated,
  next to the value it returns to Ruby or the exception it raises. The owner is taken to
  be a \<open>Rugged::Repository\<close>, as \<open>Repository#branches\<close> builds the collection, so
  that \<open>rugged_check_repo\<close> passes and \<open>Data_Get_Struct\<close> yields the repository.
  Releasing memory (\<open>git_reference_free\<close>, \<open>git_commit_free\<close>, \<open>xfree\<close>) has no
  counterpart in the model.
\<close>

definition parse_branch_type :: "VALUE \<Rightarrow> git_branch_t rb_result" where
  "parse_branch_type rb_filter =
     (case Check_Type rb_filter T_SYMBOL of
        Inl exc \<Rightarrow> Inl exc
      | Inr u \<Rightarrow>
          (let id_filter = SYM2ID rb_filter in
           if id_filter = rb_intern ''local'' then Inr GIT_BRANCH_LOCAL
           else if id_filter = rb_intern ''remote'' then Inr GIT_BRANCH_REMOTE
           else Inl (TypeError
                  ''Invalid branch filter. Expected `:remote`, `:local` or `nil`'')))"

definition rb_git_branch_collection_create ::
  "git_repository \<Rightarrow> VALUE list \<Rightarrow> VALUE rb_result \<times> git_repository" where
  "rb_git_branch_collection_create repo argv =
     (case rb_scan_args_21 argv of
        Inl exc \<Rightarrow> (Inl exc, repo)
      | Inr (rb_name, rb_target, rb_force) \<Rightarrow>
     (case Check_Type rb_name T_STRING of
        Inl exc \<Rightarrow> (Inl exc, repo)
      | Inr u \<Rightarrow>
     (case Check_Type rb_target T_STRING of
        Inl exc \<Rightarrow> (Inl exc, repo)
      | Inr u \<Rightarrow>
     (case (if rb_force \<noteq> Qnil then rugged_parse_bool rb_force else Inr False) of
        Inl exc \<Rightarrow> (Inl exc, repo)
      | Inr force \<Rightarrow>
     (case rugged_object_get repo rb_target of
        Inl exc \<Rightarrow> (Inl exc, repo)
      | Inr target \<Rightarrow>
     (case StringValueCStr rb_name of
        Inl exc \<Rightarrow> (Inl exc, repo)
      | Inr name \<Rightarrow>
          (let (error, repo1) = git_branch_create repo name target force in
           case rugged_exception_check error of
             Inl exc \<Rightarrow> (Inl exc, repo1)
           | Inr branch \<Rightarrow> (Inr (rugged_branch_new branch), repo1))))))))"

definition rb_git_branch_collection_aref ::
  "git_repository \<Rightarrow> VALUE \<Rightarrow> VALUE rb_result \<times> git_repository" where
  "rb_git_branch_collection_aref repo rb_name =
     (case Check_Type rb_name T_STRING of
        Inl exc \<Rightarrow> (Inl exc, repo)
      | Inr u \<Rightarrow>
          (case rugged_branch_lookup repo rb_name of
             (Inl exc, repo1) \<Rightarrow> (Inl exc, repo1)
           | (Inr error, repo1) \<Rightarrow>
               if error = Inl GIT_ENOTFOUND then (Inr Qnil, repo1)
               else
                 (case rugged_exception_check error of
                    Inl exc \<Rightarrow> (Inl exc, repo1)
                  | Inr branch \<Rightarrow> (Inr (rugged_branch_new branch), repo1))))"

text \<open>
  The block of the caller: given the yielded value and its own state, it answers the
  state that \<open>rb_protect\<close> stores in \<open>exception\<close> (zero when the block returned, the
  tag of the pending exception otherwise) and its new state.
\<close>

type_synonym 'b rb_block = "VALUE \<Rightarrow> 'b \<Rightarrow> int \<times> 'b"

definition rb_protect_rb_yield :: "'b rb_block \<Rightarrow> VALUE \<Rightarrow> 'b \<Rightarrow> int \<times> 'b" where
  "rb_protect_rb_yield blk v st = blk v st"

text \<open>
  The two \<open>while\<close> loops of \<open>each_branch\<close> differ in the value they yield only:
  \<open>project\<close> is that value, and the loop returns the variables that are live after it.
  \<open>error\<close> enters the loop holding the code that \<open>git_branch_iterator_new\<close>
  returned; the loop condition calls \<open>git_branch_next\<close> on \<open>iter\<close> without
  looking at it.
\<close>

function each_branch_loop ::
  "(git_reference \<Rightarrow> VALUE) \<Rightarrow> 'b rb_block \<Rightarrow> int \<Rightarrow> unit git_result \<Rightarrow>
     git_branch_iterator option \<Rightarrow> 'b \<Rightarrow> git_repository \<Rightarrow>
     int \<times> unit git_result \<times> git_branch_iterator option \<times> 'b \<times> git_repository" where
  "each_branch_loop project blk exception error iter st repo =
     (if exception \<noteq> 0 then (exception, error, iter, st, repo)
      else
        (case git_branch_next iter repo of
           (Inl e, iter1, repo1) \<Rightarrow> (exception, Inl e, iter1, st, repo1)
         | (Inr (branch, branch_type), iter1, repo1) \<Rightarrow>
             (let (exception1, st1) = rb_protect_rb_yield blk (project branch) st
              in each_branch_loop project blk exception1 (Inr ()) iter1 st1 repo1)))"
  by pat_completeness auto
termination
  by (relation "measure (\<lambda>(project, blk, exception, error, iter, st, repo). pending_count iter)")
     (auto simp: git_branch_next_def pending_count_def Let_def split: option.splits list.splits)

declare each_branch_loop.simps [simp del]

definition each_branch ::
  "git_repository \<Rightarrow> VALUE list \<Rightarrow> ('b rb_block) option \<Rightarrow> 'b \<Rightarrow> bool \<Rightarrow>
     VALUE rb_result \<times> 'b \<times> git_repository" where
  "each_branch repo argv block st branch_names_only =
     (case rb_scan_args_01 argv of
        Inl exc \<Rightarrow> (Inl exc, st, repo)
      | Inr rb_filter \<Rightarrow>
     (case block of
        None \<Rightarrow>
          (let symbol = (if branch_names_only then ''each_name'' else ''each'')
           in (Inr (REnumerator symbol rb_filter), st, repo))
      | Some blk \<Rightarrow>
     (case (if rb_filter \<noteq> Qnil then parse_branch_type rb_filter
            else Inr GIT_BRANCH_LOCAL_OR_REMOTE) of
        Inl exc \<Rightarrow> (Inl exc, st, repo)
      | Inr list_flags \<Rightarrow>
          (let (error, iter, repo1) = git_branch_iterator_new repo list_flags;
               (exception, error, iter1, st1, repo2) =
                 (if branch_names_only then
                    each_branch_loop (\<lambda>branch. rb_str_new_utf8 (git_reference_shorthand branch))
                      blk 0 error iter st repo1
                  else
                    each_branch_loop rugged_branch_new blk 0 error iter st repo1);
               repo3 = git_branch_iterator_free iter1 repo2
           in if exception \<noteq> 0 then (Inl (JumpTag exception), st1, repo3)
              else if error \<noteq> Inl GIT_ITEROVER then
                (case rugged_exception_check error of
                   Inl exc \<Rightarrow> (Inl exc, st1, repo3)
                 | Inr u \<Rightarrow> (Inr Qnil, st1, repo3))
              else (Inr Qnil, st1, repo3)))))"

definition rb_git_branch_collection_each ::
  "git_repository \<Rightarrow> VALUE list \<Rightarrow> ('b rb_block) option \<Rightarrow> 'b \<Rightarrow>
     VALUE rb_result \<times> 'b \<times> git_repository" where
  "rb_git_branch_collection_each repo argv block st = each_branch repo argv block st False"

definition rb_git_branch_collection_each_name ::
  "git_repository \<Rightarrow> VALUE list \<Rightarrow> ('b rb_block) option \<Rightarrow> 'b \<Rightarrow>
     VALUE rb_result \<times> 'b \<times> git_repository" where
  "rb_git_branch_collection_each_name repo argv block st = each_branch repo argv block st True"

definition rb_git_branch_collection_delete ::
  "git_repository \<Rightarrow> VALUE \<Rightarrow> VALUE rb_result \<times> git_repository" where
  "rb_git_branch_collection_delete repo rb_name_or_branch =
     (case rugged_branch_lookup repo rb_name_or_branch of
        (Inl exc, repo1) \<Rightarrow> (Inl exc, repo1)
      | (Inr error, repo1) \<Rightarrow>
     (case rugged_exception_check error of
        Inl exc \<Rightarrow> (Inl exc, repo1)
      | Inr branch \<Rightarrow>
          (let (error, repo2) = git_branch_delete repo1 branch in
           case rugged_exception_check error of
             Inl exc \<Rightarrow> (Inl exc, repo2)
           | Inr u \<Rightarrow> (Inr Qnil, repo2))))"

definition rb_git_branch_collection_move ::
  "git_repository \<Rightarrow> VALUE list \<Rightarrow> VALUE rb_result \<times> git_repository" where
  "rb_git_branch_collection_move repo argv =
     (case rb_scan_args_21 argv of
        Inl exc \<Rightarrow> (Inl exc, repo)
      | Inr (rb_name_or_branch, rb_new_branch_name, rb_force) \<Rightarrow>
     (case Check_Type rb_new_branch_name T_STRING of
        Inl exc \<Rightarrow> (Inl exc, repo)
      | Inr u \<Rightarrow>
     (case rugged_branch_lookup repo rb_name_or_branch of
        (Inl exc, repo1) \<Rightarrow> (Inl exc, repo1)
      | (Inr error, repo1) \<Rightarrow>
     (case rugged_exception_check error of
        Inl exc \<Rightarrow> (Inl exc, repo1)
      | Inr old_branch \<Rightarrow>
     (case (if rb_force \<noteq> Qnil then rugged_parse_bool rb_force else Inr False) of
        Inl exc \<Rightarrow> (Inl exc, repo1)
      | Inr force \<Rightarrow>
     (case StringValueCStr rb_new_branch_name of
        Inl exc \<Rightarrow> (Inl exc, repo1)
      | Inr new_branch_name \<Rightarrow>
          (let (error, repo2) = git_branch_move repo1 old_branch new_branch_name force in
           case rugged_exception_check error of
             Inl exc \<Rightarrow> (Inl exc, repo2)
           | Inr new_branch \<Rightarrow> (Inr (rugged_branch_new new_branch), repo2))))))))"

definition rb_git_branch_collection_exist_p ::
  "git_repository \<Rightarrow> VALUE \<Rightarrow> VALUE rb_result \<times> git_repository" where
  "rb_git_branch_collection_exist_p repo rb_name =
     (case Check_Type rb_name T_STRING of
        Inl exc \<Rightarrow> (Inl exc, repo)
      | Inr u \<Rightarrow>
          (case rugged_branch_lookup repo rb_name of
             (Inl exc, repo1) \<Rightarrow> (Inl exc, repo1)
           | (Inr error, repo1) \<Rightarrow>
               if error = Inl GIT_ENOTFOUND then (Inr Qfalse, repo1)
               else
                 (case rugged_exception_check error of
                    Inl exc \<Rightarrow> (Inl exc, repo1)
                  | Inr branch \<Rightarrow> (Inr Qtrue, repo1))))"

subsection \<open>Vocabulary of the claims\<close>

text \<open>
  A name is qualified when it already carries \<open>refs/heads/\<close> or \<open>refs/remotes/\<close> or
  is exactly \<open>HEAD\<close>; any other name is bare. \<open>ref_at\<close> reads the store without
  touching its journal. The candidates of a name are the references its resolution may
  read, in order.
\<close>

definition qualified_name :: "string \<Rightarrow> bool" where
  "qualified_name n =
     (strncmp_eq n ''refs/heads/'' \<or> strncmp_eq n ''refs/remotes/'' \<or> n = ''HEAD'')"

definition ref_at :: "git_repository \<Rightarrow> string \<Rightarrow> git_reference option" where
  "ref_at repo name =
     (case map_of (refs repo) name of
        None \<Rightarrow> None
      | Some t \<Rightarrow> Some \<lparr>ref_name = name, ref_target = t\<rparr>)"

definition resolution_candidates :: "string \<Rightarrow> string list" where
  "resolution_candidates n =
     (if qualified_name n then [n]
      else [''refs/heads/'' @ n, ''refs/remotes/'' @ n, ''refs/'' @ n])"

subsection \<open>Example repositories\<close>

text \<open>
  A repository with a local and a remote branch of the same short name \<open>x\<close>, a second
  remote branch and a symbolic \<open>HEAD\<close>; the same repository on a store that fails
  the read of \<open>refs/heads/f1\<close>, the read of \<open>refs/remotes/f2\<close> and the second step
  of every iteration; and the same repository on a store that fails to open an iterator
  over the local and remote branches.
\<close>

definition example_repo :: git_repository where
  "example_repo =
     \<lparr>refs = [(''refs/heads/x'', Direct ''c1''),
              (''refs/remotes/x'', Direct ''c2''),
              (''refs/remotes/origin/y'', Direct ''c2''),
              (''HEAD'', Symbolic ''refs/heads/x'')],
      odb = [(''c1'', GIT_OBJ_COMMIT), (''c2'', GIT_OBJ_COMMIT), (''t1'', GIT_OBJ_TREE)],
      fault = (\<lambda>op. None),
      journal = [],
      cursors = 0,
      unset_pointer_uses = 0\<rparr>"

definition example_fault :: "store_op \<Rightarrow> git_error_code option" where
  "example_fault op =
     (if op = RefGet ''refs/heads/f1'' then Some GIT_ERROR
      else if op = RefGet ''refs/remotes/f2'' then Some GIT_EINVALIDSPEC
      else if op = IterNext 1 then Some GIT_ERROR
      else None)"

definition faulty_repo :: git_repository where
  "faulty_repo = example_repo\<lparr>fault := example_fault\<rparr>"

definition failing_open_fault :: "store_op \<Rightarrow> git_error_code option" where
  "failing_open_fault op =
     (if op = IterOpen GIT_BRANCH_LOCAL_OR_REMOTE then Some GIT_EINVALIDSPEC else None)"

definition failing_open_repo :: git_repository where
  "failing_open_repo = example_repo\<lparr>fault := failing_open_fault\<rparr>"

text \<open>
  Two blocks whose state is the list of the values yielded so far: one always returns;
  the other raises (tag 6) at its second call.
\<close>

definition collect_block :: "(VALUE list) rb_block" where
  "collect_block v st = (0, st @ [v])"

definition raising_block :: "(VALUE list) rb_block" where
  "raising_block v st = (if length st = 1 then 6 else 0, st @ [v])"

section \<open>Properties\<close>

subsection \<open>Facts about the store\<close>

lemma record_op_simps [simp]:
  "refs (record_op op repo) = refs repo"
  "odb (record_op op repo) = odb repo"
  "fault (record_op op repo) = fault repo"
  "cursors (record_op op repo) = cursors repo"
  "unset_pointer_uses (record_op op repo) = unset_pointer_uses repo"
  "journal (record_op op repo) = journal repo @ [op]"
  by (simp_all add: record_op_def)

lemma ref_at_record_op [simp]: "ref_at (record_op op repo) name = ref_at repo name"
  by (simp add: ref_at_def)

lemma ref_at_journal_update [simp]:
  "ref_at (repo\<lparr>journal := j\<rparr>) name = ref_at repo name"
  by (simp add: ref_at_def)

lemma git_reference_lookup_quiet:
  "fault repo (RefGet name) = None \<Longrightarrow>
   git_reference_lookup repo name =
     ((case ref_at repo name of None \<Rightarrow> Inl GIT_ENOTFOUND | Some r \<Rightarrow> Inr r),
      record_op (RefGet name) repo)"
  by (simp add: git_reference_lookup_def ref_at_def Let_def split: option.splits)

lemma git_reference_lookup_journal:
  "snd (git_reference_lookup repo name) = record_op (RefGet name) repo"
  by (simp add: git_reference_lookup_def Let_def split: option.splits)

lemma git_reference_lookup_state:
  "git_reference_lookup repo name = (r, repo1) \<Longrightarrow> repo1 = record_op (RefGet name) repo"
  using git_reference_lookup_journal [of repo name] by simp

lemma map_of_filter_key:
  "map_of (filter (\<lambda>(n, t). P n) xs) k = (if P k then map_of xs k else None)"
  by (induction xs) auto

lemmas example_defs =
  example_repo_def faulty_repo_def example_fault_def failing_open_repo_def
  failing_open_fault_def qualified_name_def strncmp_eq_def
  ref_at_def git_reference_lookup_def git_branch_lookup_def record_op_def
  resolution_candidates_def

subsection \<open>Facts about name resolution\<close>

lemma rugged_branch_lookup_bare:
  assumes "CHR 0x00 \<notin> set n" and "\<not> qualified_name n"
  shows "rugged_branch_lookup repo (RString n) =
     (let (error, repo1) = git_branch_lookup repo n GIT_BRANCH_LOCAL in
      if error \<noteq> Inl GIT_ENOTFOUND then (Inr error, repo1)
      else
        (let (error, repo2) = git_branch_lookup repo1 n GIT_BRANCH_REMOTE in
         if error \<noteq> Inl GIT_ENOTFOUND then (Inr error, repo2)
         else
           (let (error, repo3) = git_reference_lookup repo2 (''refs/'' @ n)
            in (Inr error, repo3))))"
  using assms
  by (auto simp: rugged_branch_lookup_def qualified_name_def Let_def split: prod.splits)

lemma rugged_branch_lookup_qualified:
  assumes "CHR 0x00 \<notin> set n" and "qualified_name n"
  shows "rugged_branch_lookup repo (RString n) =
           (Inr (fst (git_reference_lookup repo n)), record_op (RefGet n) repo)"
proof -
  obtain r repo1 where l: "git_reference_lookup repo n = (r, repo1)"
    by (cases "git_reference_lookup repo n")
  then have "repo1 = record_op (RefGet n) repo"
    by (rule git_reference_lookup_state)
  with l assms show ?thesis
    by (auto simp: rugged_branch_lookup_def qualified_name_def)
qed

lemma rugged_branch_lookup_absent:
  assumes cstr: "CHR 0x00 \<notin> set n"
    and absent: "\<forall>name \<in> set (resolution_candidates n). ref_at repo name = None"
    and quiet: "\<forall>name \<in> set (resolution_candidates n). fault repo (RefGet name) = None"
  shows "rugged_branch_lookup repo (RString n) =
           (Inr (Inl GIT_ENOTFOUND),
            repo\<lparr>journal := journal repo @ map RefGet (resolution_candidates n)\<rparr>)"
proof (cases "qualified_name n")
  case True
  with assms show ?thesis
    by (simp add: rugged_branch_lookup_qualified resolution_candidates_def
          git_reference_lookup_quiet record_op_def)
next
  case False
  with assms show ?thesis
    by (simp add: rugged_branch_lookup_bare resolution_candidates_def git_branch_lookup_def
          git_reference_lookup_quiet record_op_def)
qed

lemma rugged_branch_lookup_store:
  "rugged_branch_lookup repo v = (r, repo1) \<Longrightarrow>
     refs repo1 = refs repo \<and> fault repo1 = fault repo \<and> odb repo1 = odb repo \<and>
     cursors repo1 = cursors repo"
  by (auto simp: rugged_branch_lookup_def git_branch_lookup_def Let_def
        split: if_splits sum.splits prod.splits dest!: git_reference_lookup_state)

subsection \<open>Resolution order\<close>

text \<open>
  Claim C1. A bare name (no NUL byte, as every C string) is resolved by reading
  \<open>refs/heads/<name>\<close>, then \<open>refs/remotes/<name>\<close>, then \<open>refs/<name>\<close>, on a store
  that answers these reads; the first reference that exists is returned and no later
  one is read, so a local branch wins over a remote branch of the same name. A qualified
  name is read verbatim, in a single access, whatever the store answers.
\<close>

theorem rugged_branch_lookup_precedence:
  assumes cstr: "CHR 0x00 \<notin> set n"
  shows
    "(qualified_name n \<longrightarrow>
        rugged_branch_lookup repo (RString n) =
          (Inr (fst (git_reference_lookup repo n)),
           repo\<lparr>journal := journal repo @ [RefGet n]\<rparr>))
     \<and>
     (\<not> qualified_name n \<longrightarrow>
      fault repo (RefGet (''refs/heads/'' @ n)) = None \<longrightarrow>
      fault repo (RefGet (''refs/remotes/'' @ n)) = None \<longrightarrow>
      fault repo (RefGet (''refs/'' @ n)) = None \<longrightarrow>
        rugged_branch_lookup repo (RString n) =
          (case ref_at repo (''refs/heads/'' @ n) of
             Some local \<Rightarrow>
               (Inr (Inr local),
                repo\<lparr>journal := journal repo @ [RefGet (''refs/heads/'' @ n)]\<rparr>)
           | None \<Rightarrow>
               (case ref_at repo (''refs/remotes/'' @ n) of
                  Some remote \<Rightarrow>
                    (Inr (Inr remote),
                     repo\<lparr>journal := journal repo @
                       [RefGet (''refs/heads/'' @ n), RefGet (''refs/remotes/'' @ n)]\<rparr>)
                | None \<Rightarrow>
                    (case ref_at repo (''refs/'' @ n) of
                       Some raw \<Rightarrow>
                         (Inr (Inr raw),
                          repo\<lparr>journal := journal repo @
                            [RefGet (''refs/heads/'' @ n), RefGet (''refs/remotes/'' @ n),
                             RefGet (''refs/'' @ n)]\<rparr>)
                     | None \<Rightarrow>
                         (Inr (Inl GIT_ENOTFOUND),
                          repo\<lparr>journal := journal repo @
                            [RefGet (''refs/heads/'' @ n), RefGet (''refs/remotes/'' @ n),
                             RefGet (''refs/'' @ n)]\<rparr>)))))"
proof (intro conjI impI)
  assume "qualified_name n"
  with cstr show "rugged_branch_lookup repo (RString n) =
      (Inr (fst (git_reference_lookup repo n)), repo\<lparr>journal := journal repo @ [RefGet n]\<rparr>)"
    by (simp add: rugged_branch_lookup_qualified record_op_def)
next
  assume bare: "\<not> qualified_name n"
    and quiet: "fault repo (RefGet (''refs/heads/'' @ n)) = None"
      "fault repo (RefGet (''refs/remotes/'' @ n)) = None"
      "fault repo (RefGet (''refs/'' @ n)) = None"
  show "rugged_branch_lookup repo (RString n) =
          (case ref_at repo (''refs/heads/'' @ n) of
             Some local \<Rightarrow>
               (Inr (Inr local),
                repo\<lparr>journal := journal repo @ [RefGet (''refs/heads/'' @ n)]\<rparr>)
           | None \<Rightarrow>
               (case ref_at repo (''refs/remotes/'' @ n) of
                  Some remote \<Rightarrow>
                    (Inr (Inr remote),
                     repo\<lparr>journal := journal repo @
                       [RefGet (''refs/heads/'' @ n), RefGet (''refs/remotes/'' @ n)]\<rparr>)
                | None \<Rightarrow>
                    (case ref_at repo (''refs/'' @ n) of
                       Some raw \<Rightarrow>
                         (Inr (Inr raw),
                          repo\<lparr>journal := journal repo @
                            [RefGet (''refs/heads/'' @ n), RefGet (''refs/remotes/'' @ n),
                             RefGet (''refs/'' @ n)]\<rparr>)
                     | None \<Rightarrow>
                         (Inr (Inl GIT_ENOTFOUND),
                          repo\<lparr>journal := journal repo @
                            [RefGet (''refs/heads/'' @ n), RefGet (''refs/remotes/'' @ n),
                             RefGet (''refs/'' @ n)]\<rparr>))))"
    using quiet
    by (simp add: rugged_branch_lookup_bare [OF cstr bare] git_branch_lookup_def
          git_reference_lookup_quiet record_op_def split: option.splits)
qed

theorem rugged_branch_lookup_precedence_witness:
  "rugged_branch_lookup example_repo (RString ''x'') =
     (Inr (Inr \<lparr>ref_name = ''refs/heads/x'', ref_target = Direct ''c1''\<rparr>),
      example_repo\<lparr>journal := [RefGet ''refs/heads/x'']\<rparr>)
   \<and> rugged_branch_lookup example_repo (RString ''origin/y'') =
     (Inr (Inr \<lparr>ref_name = ''refs/remotes/origin/y'', ref_target = Direct ''c2''\<rparr>),
      example_repo\<lparr>journal := [RefGet ''refs/heads/origin/y'', RefGet ''refs/remotes/origin/y'']\<rparr>)
   \<and> rugged_branch_lookup example_repo (RString ''refs/remotes/x'') =
     (Inr (Inr \<lparr>ref_name = ''refs/remotes/x'', ref_target = Direct ''c2''\<rparr>),
      example_repo\<lparr>journal := [RefGet ''refs/remotes/x'']\<rparr>)"
  using rugged_branch_lookup_precedence [of "''x''" example_repo]
    rugged_branch_lookup_precedence [of "''origin/y''" example_repo]
    rugged_branch_lookup_precedence [of "''refs/remotes/x''" example_repo]
  by (simp add: qualified_name_def strncmp_eq_def ref_at_def example_repo_def
        git_reference_lookup_def record_op_def)

subsection \<open>Errors during resolution\<close>

text \<open>
  Claim C2. While a bare name is resolved, an error other than NotFound from the local
  lookup is the result, and the store has been read once; after NotFound from the local
  lookup, an error other than NotFound from the remote lookup is the result, and the
  store has been read twice; only after NotFound from both is the raw reference read,
  whose answer is the result.
\<close>

theorem rugged_branch_lookup_error_aborts:
  assumes cstr: "CHR 0x00 \<notin> set n" and bare: "\<not> qualified_name n"
  shows
    "(git_branch_lookup repo n GIT_BRANCH_LOCAL = (Inl e1, repo1) \<longrightarrow>
      e1 \<noteq> GIT_ENOTFOUND \<longrightarrow>
        rugged_branch_lookup repo (RString n) = (Inr (Inl e1), repo1) \<and>
        journal repo1 = journal repo @ [RefGet (''refs/heads/'' @ n)])
     \<and>
     (git_branch_lookup repo n GIT_BRANCH_LOCAL = (Inl GIT_ENOTFOUND, repo1) \<longrightarrow>
      git_branch_lookup repo1 n GIT_BRANCH_REMOTE = (Inl e2, repo2) \<longrightarrow>
      e2 \<noteq> GIT_ENOTFOUND \<longrightarrow>
        rugged_branch_lookup repo (RString n) = (Inr (Inl e2), repo2) \<and>
        journal repo2 =
          journal repo @ [RefGet (''refs/heads/'' @ n), RefGet (''refs/remotes/'' @ n)])
     \<and>
     (git_branch_lookup repo n GIT_BRANCH_LOCAL = (Inl GIT_ENOTFOUND, repo1) \<longrightarrow>
      git_branch_lookup repo1 n GIT_BRANCH_REMOTE = (Inl GIT_ENOTFOUND, repo2) \<longrightarrow>
      git_reference_lookup repo2 (''refs/'' @ n) = (r3, repo3) \<longrightarrow>
        rugged_branch_lookup repo (RString n) = (Inr r3, repo3) \<and>
        journal repo3 =
          journal repo @ [RefGet (''refs/heads/'' @ n), RefGet (''refs/remotes/'' @ n),
                          RefGet (''refs/'' @ n)])"
proof (intro conjI impI)
  assume s1: "git_branch_lookup repo n GIT_BRANCH_LOCAL = (Inl e1, repo1)"
    and ne: "e1 \<noteq> GIT_ENOTFOUND"
  then show "rugged_branch_lookup repo (RString n) = (Inr (Inl e1), repo1)"
    by (simp add: rugged_branch_lookup_bare [OF cstr bare])
  from s1 show "journal repo1 = journal repo @ [RefGet (''refs/heads/'' @ n)]"
    by (auto simp: git_branch_lookup_def dest: git_reference_lookup_state)
next
  assume s1: "git_branch_lookup repo n GIT_BRANCH_LOCAL = (Inl GIT_ENOTFOUND, repo1)"
    and s2: "git_branch_lookup repo1 n GIT_BRANCH_REMOTE = (Inl e2, repo2)"
    and ne: "e2 \<noteq> GIT_ENOTFOUND"
  then show "rugged_branch_lookup repo (RString n) = (Inr (Inl e2), repo2)"
    by (simp add: rugged_branch_lookup_bare [OF cstr bare])
  from s1 s2 show "journal repo2 =
      journal repo @ [RefGet (''refs/heads/'' @ n), RefGet (''refs/remotes/'' @ n)]"
    by (auto simp: git_branch_lookup_def dest!: git_reference_lookup_state)
next
  assume s1: "git_branch_lookup repo n GIT_BRANCH_LOCAL = (Inl GIT_ENOTFOUND, repo1)"
    and s2: "git_branch_lookup repo1 n GIT_BRANCH_REMOTE = (Inl GIT_ENOTFOUND, repo2)"
    and s3: "git_reference_lookup repo2 (''refs/'' @ n) = (r3, repo3)"
  then show "rugged_branch_lookup repo (RString n) = (Inr r3, repo3)"
    by (simp add: rugged_branch_lookup_bare [OF cstr bare])
  from s1 s2 s3 show "journal repo3 =
      journal repo @ [RefGet (''refs/heads/'' @ n), RefGet (''refs/remotes/'' @ n),
                      RefGet (''refs/'' @ n)]"
    by (auto simp: git_branch_lookup_def dest!: git_reference_lookup_state)
qed

theorem rugged_branch_lookup_error_aborts_witness:
  "rugged_branch_lookup faulty_repo (RString ''f1'') =
     (Inr (Inl GIT_ERROR), faulty_repo\<lparr>journal := [RefGet ''refs/heads/f1'']\<rparr>)
   \<and> rugged_branch_lookup faulty_repo (RString ''f2'') =
     (Inr (Inl GIT_EINVALIDSPEC),
      faulty_repo\<lparr>journal := [RefGet ''refs/heads/f2'', RefGet ''refs/remotes/f2'']\<rparr>)
   \<and> rugged_branch_lookup faulty_repo (RString ''zz'') =
     (Inr (Inl GIT_ENOTFOUND),
      faulty_repo\<lparr>journal := [RefGet ''refs/heads/zz'', RefGet ''refs/remotes/zz'',
                               RefGet ''refs/zz'']\<rparr>)"
  using
    rugged_branch_lookup_error_aborts [of "''f1''" faulty_repo GIT_ERROR
      "faulty_repo\<lparr>journal := [RefGet ''refs/heads/f1'']\<rparr>"]
    rugged_branch_lookup_error_aborts [of "''f2''" faulty_repo _
      "faulty_repo\<lparr>journal := [RefGet ''refs/heads/f2'']\<rparr>"
      GIT_EINVALIDSPEC
      "faulty_repo\<lparr>journal := [RefGet ''refs/heads/f2'', RefGet ''refs/remotes/f2'']\<rparr>"]
    rugged_branch_lookup_error_aborts [of "''zz''" faulty_repo _
      "faulty_repo\<lparr>journal := [RefGet ''refs/heads/zz'']\<rparr>" _
      "faulty_repo\<lparr>journal := [RefGet ''refs/heads/zz'', RefGet ''refs/remotes/zz'']\<rparr>"
      "Inl GIT_ENOTFOUND"
      "faulty_repo\<lparr>journal := [RefGet ''refs/heads/zz'', RefGet ''refs/remotes/zz'',
                               RefGet ''refs/zz'']\<rparr>"]
  by (simp add: example_defs)

subsection \<open>Lookup and existence\<close>

text \<open>
  Claim C3. For every name, \<open>[]\<close> returns nil exactly when the resolution of the name
  reports NotFound; when the resolution finds a reference, \<open>[]\<close> returns the branch
  wrapping it; every other error code of the resolution, and every exception raised
  inside it, reaches the caller as an exception.
\<close>

theorem aref_nil_iff_notfound:
  "(fst (rb_git_branch_collection_aref repo (RString n)) = Inr Qnil \<longleftrightarrow>
      fst (rugged_branch_lookup repo (RString n)) = Inr (Inl GIT_ENOTFOUND))
   \<and> (fst (rugged_branch_lookup repo (RString n)) = Inr (Inr branch) \<longrightarrow>
      fst (rb_git_branch_collection_aref repo (RString n)) = Inr (RuggedBranch branch))
   \<and> (fst (rugged_branch_lookup repo (RString n)) = Inr (Inl e) \<longrightarrow> e \<noteq> GIT_ENOTFOUND \<longrightarrow>
      fst (rb_git_branch_collection_aref repo (RString n)) = Inl (RuggedError e))
   \<and> (fst (rugged_branch_lookup repo (RString n)) = Inl exc \<longrightarrow>
      fst (rb_git_branch_collection_aref repo (RString n)) = Inl exc)"
  by (cases "rugged_branch_lookup repo (RString n)")
     (auto simp: rb_git_branch_collection_aref_def Check_Type_def rugged_exception_check_def
        rugged_branch_new_def split: sum.splits)

theorem aref_nil_iff_notfound_witness:
  "fst (rb_git_branch_collection_aref example_repo (RString ''zz'')) = Inr Qnil
   \<and> fst (rb_git_branch_collection_aref example_repo (RString ''x'')) =
       Inr (RuggedBranch \<lparr>ref_name = ''refs/heads/x'', ref_target = Direct ''c1''\<rparr>)
   \<and> fst (rb_git_branch_collection_aref faulty_repo (RString ''f1'')) =
       Inl (RuggedError GIT_ERROR)
   \<and> fst (rb_git_branch_collection_aref example_repo (RString [CHR ''a'', CHR 0x00])) =
       Inl (ArgumentError ''string contains null byte'')"
  using
    aref_nil_iff_notfound [of example_repo "''zz''"]
    aref_nil_iff_notfound [of example_repo "''x''"
      "\<lparr>ref_name = ''refs/heads/x'', ref_target = Direct ''c1''\<rparr>"]
    aref_nil_iff_notfound [of faulty_repo "''f1''" _ GIT_ERROR]
    aref_nil_iff_notfound [of example_repo "[CHR ''a'', CHR 0x00]" _ _
      "ArgumentError ''string contains null byte''"]
  by (simp add: rugged_branch_lookup_def example_defs)

text \<open>
  Claim C4. For every name, \<open>exist?\<close> returns false exactly when the resolution of the
  name reports NotFound and true exactly when it finds a reference; every other error
  code of the resolution, and every exception raised inside it, reaches the caller as an
  exception.
\<close>

theorem exist_p_false_iff_notfound:
  "(fst (rb_git_branch_collection_exist_p repo (RString n)) = Inr Qfalse \<longleftrightarrow>
      fst (rugged_branch_lookup repo (RString n)) = Inr (Inl GIT_ENOTFOUND))
   \<and> (fst (rb_git_branch_collection_exist_p repo (RString n)) = Inr Qtrue \<longleftrightarrow>
      (\<exists>branch. fst (rugged_branch_lookup repo (RString n)) = Inr (Inr branch)))
   \<and> (fst (rugged_branch_lookup repo (RString n)) = Inr (Inl e) \<longrightarrow> e \<noteq> GIT_ENOTFOUND \<longrightarrow>
      fst (rb_git_branch_collection_exist_p repo (RString n)) = Inl (RuggedError e))
   \<and> (fst (rugged_branch_lookup repo (RString n)) = Inl exc \<longrightarrow>
      fst (rb_git_branch_collection_exist_p repo (RString n)) = Inl exc)"
  by (cases "rugged_branch_lookup repo (RString n)")
     (auto simp: rb_git_branch_collection_exist_p_def Check_Type_def rugged_exception_check_def
        split: sum.splits)

theorem exist_p_false_iff_notfound_witness:
  "fst (rb_git_branch_collection_exist_p example_repo (RString ''zz'')) = Inr Qfalse
   \<and> fst (rb_git_branch_collection_exist_p example_repo (RString ''x'')) = Inr Qtrue
   \<and> fst (rb_git_branch_collection_exist_p faulty_repo (RString ''f1'')) =
       Inl (RuggedError GIT_ERROR)
   \<and> fst (rb_git_branch_collection_exist_p example_repo (RString [CHR ''a'', CHR 0x00])) =
       Inl (ArgumentError ''string contains null byte'')"
  using
    exist_p_false_iff_notfound [of example_repo "''zz''"]
    exist_p_false_iff_notfound [of example_repo "''x''"]
    exist_p_false_iff_notfound [of faulty_repo "''f1''" GIT_ERROR]
    exist_p_false_iff_notfound [of example_repo "[CHR ''a'', CHR 0x00]" _
      "ArgumentError ''string contains null byte''"]
  by (simp add: rugged_branch_lookup_def example_defs)

subsection \<open>Mutating operations on a missing branch\<close>

text \<open>
  Claim C5. When none of the references a name may resolve to exists (and the store
  answers the reads), \<open>delete\<close> and \<open>move\<close> raise the NotFound error and leave the
  references of the store as they were: neither turns NotFound into a value.
\<close>

theorem delete_move_raise_notfound:
  assumes cstr: "CHR 0x00 \<notin> set n"
    and absent: "\<forall>name \<in> set (resolution_candidates n). ref_at repo name = None"
    and quiet: "\<forall>name \<in> set (resolution_candidates n). fault repo (RefGet name) = None"
    and args: "rb_type rb_new_branch_name = T_STRING" "length opt \<le> 1"
  shows
    "fst (rb_git_branch_collection_delete repo (RString n)) = Inl (RuggedError GIT_ENOTFOUND)
     \<and> refs (snd (rb_git_branch_collection_delete repo (RString n))) = refs repo
     \<and> fst (rb_git_branch_collection_move repo (RString n # rb_new_branch_name # opt)) =
         Inl (RuggedError GIT_ENOTFOUND)
     \<and> refs (snd (rb_git_branch_collection_move repo (RString n # rb_new_branch_name # opt))) =
         refs repo"
proof -
  note l = rugged_branch_lookup_absent [OF cstr absent quiet]
  have d: "rb_git_branch_collection_delete repo (RString n) =
      (Inl (RuggedError GIT_ENOTFOUND),
       repo\<lparr>journal := journal repo @ map RefGet (resolution_candidates n)\<rparr>)"
    by (simp add: rb_git_branch_collection_delete_def l rugged_exception_check_def)
  from args obtain c where "opt = [] \<or> opt = [c]"
    by (cases opt) auto
  then have m: "rb_git_branch_collection_move repo (RString n # rb_new_branch_name # opt) =
      (Inl (RuggedError GIT_ENOTFOUND),
       repo\<lparr>journal := journal repo @ map RefGet (resolution_candidates n)\<rparr>)"
    using args(1)
    by (auto simp: rb_git_branch_collection_move_def l rugged_exception_check_def Check_Type_def)
  from d m show ?thesis by simp
qed

theorem delete_move_raise_notfound_witness:
  "fst (rb_git_branch_collection_delete example_repo (RString ''zz'')) =
     Inl (RuggedError GIT_ENOTFOUND)
   \<and> fst (rb_git_branch_collection_move example_repo [RString ''zz'', RString ''w'']) =
     Inl (RuggedError GIT_ENOTFOUND)
   \<and> fst (rb_git_branch_collection_delete example_repo (RString ''refs/heads/gone'')) =
     Inl (RuggedError GIT_ENOTFOUND)"
  using
    delete_move_raise_notfound [of "''zz''" example_repo "RString ''w''" "[]"]
    delete_move_raise_notfound [of "''refs/heads/gone''" example_repo "RString ''w''" "[]"]
  by (simp add: example_defs)

subsection \<open>Creating and renaming\<close>

lemma opt_force:
  assumes "opt = [] \<or> opt = [Qnil] \<or> opt = [Qfalse] \<or> opt = [Qtrue]"
  shows "rb_scan_args_21 (a # b # opt) = Inr (a, b, if opt = [] then Qnil else hd opt)"
    and "(if (if opt = [] then Qnil else hd opt) \<noteq> Qnil
          then rugged_parse_bool (if opt = [] then Qnil else hd opt) else Inr False) =
         Inr (opt = [Qtrue])"
  using assms by auto

lemma create_unfold:
  assumes cstr: "CHR 0x00 \<notin> set n"
    and opt: "opt = [] \<or> opt = [Qnil] \<or> opt = [Qfalse] \<or> opt = [Qtrue]"
  shows "rb_git_branch_collection_create repo (RString n # RString t # opt) =
     (case resolveCommit repo t of
        Inl f \<Rightarrow> (Inl InvalidTarget, repo)
      | Inr target \<Rightarrow>
          (let (error, repo1) = git_branch_create repo n target (opt = [Qtrue]) in
           case error of
             Inl e \<Rightarrow> (Inl (RuggedError e), repo1)
           | Inr branch \<Rightarrow> (Inr (RuggedBranch branch), repo1)))"
  using cstr
  by (simp add: rb_git_branch_collection_create_def opt_force [OF opt] Check_Type_def
        rugged_exception_check_def rugged_branch_new_def split: sum.splits prod.splits)

lemma move_unfold:
  assumes look: "rugged_branch_lookup repo v = (Inr (Inr old_branch), repo1)"
    and cstr: "CHR 0x00 \<notin> set m"
    and opt: "opt = [] \<or> opt = [Qnil] \<or> opt = [Qfalse] \<or> opt = [Qtrue]"
  shows "rb_git_branch_collection_move repo (v # RString m # opt) =
     (let (error, repo2) = git_branch_move repo1 old_branch m (opt = [Qtrue]) in
      case error of
        Inl e \<Rightarrow> (Inl (RuggedError e), repo2)
      | Inr branch \<Rightarrow> (Inr (RuggedBranch branch), repo2))"
  using cstr
  by (simp add: rb_git_branch_collection_move_def opt_force [OF opt] Check_Type_def look
        rugged_exception_check_def rugged_branch_new_def split: sum.splits prod.splits)

text \<open>
  Claim C6. \<open>create(name, target, force)\<close>, the force flag absent, nil, false or true:
  when the target does not resolve to a commit the call raises InvalidTarget and the
  store is untouched. When it resolves to the commit \<open>c\<close> (and the store carries out the
  write), the call fails with AlreadyExists and leaves the references as they were if
  \<open>refs/heads/<name>\<close> exists and force is not true; otherwise it returns the branch
  \<open>refs/heads/<name>\<close> pointing to \<open>c\<close>, the store holds exactly that reference under
  that name afterwards, and every other reference is as before.
\<close>

theorem create_branch_contract:
  assumes cstr: "CHR 0x00 \<notin> set n"
    and opt: "opt = [] \<or> opt = [Qnil] \<or> opt = [Qfalse] \<or> opt = [Qtrue]"
  shows
    "(resolveCommit repo t = Inl f \<longrightarrow>
        rb_git_branch_collection_create repo (RString n # RString t # opt) =
          (Inl InvalidTarget, repo))
     \<and>
     (resolveCommit repo t = Inr c \<longrightarrow>
      fault repo (RefCreate (''refs/heads/'' @ n) c (opt = [Qtrue])) = None \<longrightarrow>
        (ref_at repo (''refs/heads/'' @ n) \<noteq> None \<and> opt \<noteq> [Qtrue] \<longrightarrow>
           fst (rb_git_branch_collection_create repo (RString n # RString t # opt)) =
             Inl (RuggedError GIT_EEXISTS) \<and>
           refs (snd (rb_git_branch_collection_create repo (RString n # RString t # opt))) =
             refs repo)
        \<and>
        (ref_at repo (''refs/heads/'' @ n) = None \<or> opt = [Qtrue] \<longrightarrow>
           fst (rb_git_branch_collection_create repo (RString n # RString t # opt)) =
             Inr (RuggedBranch \<lparr>ref_name = ''refs/heads/'' @ n, ref_target = Direct c\<rparr>) \<and>
           ref_at (snd (rb_git_branch_collection_create repo (RString n # RString t # opt)))
               (''refs/heads/'' @ n) =
             Some \<lparr>ref_name = ''refs/heads/'' @ n, ref_target = Direct c\<rparr> \<and>
           (\<forall>other. other \<noteq> ''refs/heads/'' @ n \<longrightarrow>
              ref_at (snd (rb_git_branch_collection_create repo (RString n # RString t # opt)))
                  other = ref_at repo other)))"
  unfolding create_unfold [OF cstr opt]
  by (auto simp: git_branch_create_def Let_def ref_at_def map_of_filter_key
        split: option.splits)

theorem create_branch_contract_witness:
  "rb_git_branch_collection_create example_repo [RString ''x'', RString ''t1''] =
     (Inl InvalidTarget, example_repo)
   \<and> fst (rb_git_branch_collection_create example_repo [RString ''x'', RString ''c2'']) =
     Inl (RuggedError GIT_EEXISTS)
   \<and> fst (rb_git_branch_collection_create example_repo [RString ''x'', RString ''c2'', Qtrue]) =
     Inr (RuggedBranch \<lparr>ref_name = ''refs/heads/x'', ref_target = Direct ''c2''\<rparr>)
   \<and> fst (rb_git_branch_collection_create example_repo [RString ''new'', RString ''c1'']) =
     Inr (RuggedBranch \<lparr>ref_name = ''refs/heads/new'', ref_target = Direct ''c1''\<rparr>)"
  using
    create_branch_contract [of "''x''" "[]" example_repo "''t1''" NotACommit]
    create_branch_contract [of "''x''" "[]" example_repo "''c2''" _ "''c2''"]
    create_branch_contract [of "''x''" "[Qtrue]" example_repo "''c2''" _ "''c2''"]
    create_branch_contract [of "''new''" "[]" example_repo "''c1''" _ "''c1''"]
  by (simp add: resolveCommit_def example_defs)

text \<open>
  Claim C7. \<open>move(branch, new_name, force)\<close> on an argument that resolves to a
  reference \<open>old_branch\<close> (a local branch, a remote branch, named by a string or by a
  handle), when the store carries out the rename: the call fails with AlreadyExists and
  leaves the references as they were if \<open>refs/heads/<new_name>\<close> exists and force is not
  true; otherwise it returns the branch \<open>refs/heads/<new_name>\<close> with the target of
  \<open>old_branch\<close>, the store holds that reference afterwards, the old name is gone, and
  every other reference is as before. The destination is \<open>refs/heads/<new_name>\<close>
  whatever the namespace of \<open>old_branch\<close>.
\<close>

theorem move_targets_local_namespace:
  assumes look: "rugged_branch_lookup repo v = (Inr (Inr old_branch), repo1)"
    and cstr: "CHR 0x00 \<notin> set m"
    and opt: "opt = [] \<or> opt = [Qnil] \<or> opt = [Qfalse] \<or> opt = [Qtrue]"
    and quiet: "fault repo
        (RefRename (ref_name old_branch) (''refs/heads/'' @ m) (opt = [Qtrue])) = None"
  shows
    "(ref_at repo (''refs/heads/'' @ m) \<noteq> None \<and> opt \<noteq> [Qtrue] \<longrightarrow>
        fst (rb_git_branch_collection_move repo (v # RString m # opt)) =
          Inl (RuggedError GIT_EEXISTS) \<and>
        refs (snd (rb_git_branch_collection_move repo (v # RString m # opt))) = refs repo)
     \<and>
     (ref_at repo (''refs/heads/'' @ m) = None \<or> opt = [Qtrue] \<longrightarrow>
        fst (rb_git_branch_collection_move repo (v # RString m # opt)) =
          Inr (RuggedBranch
                 \<lparr>ref_name = ''refs/heads/'' @ m, ref_target = ref_target old_branch\<rparr>) \<and>
        ref_at (snd (rb_git_branch_collection_move repo (v # RString m # opt)))
            (''refs/heads/'' @ m) =
          Some \<lparr>ref_name = ''refs/heads/'' @ m, ref_target = ref_target old_branch\<rparr> \<and>
        (ref_name old_branch \<noteq> ''refs/heads/'' @ m \<longrightarrow>
           ref_at (snd (rb_git_branch_collection_move repo (v # RString m # opt)))
               (ref_name old_branch) = None) \<and>
        (\<forall>other. other \<noteq> ''refs/heads/'' @ m \<longrightarrow> other \<noteq> ref_name old_branch \<longrightarrow>
           ref_at (snd (rb_git_branch_collection_move repo (v # RString m # opt))) other =
             ref_at repo other))"
proof -
  from rugged_branch_lookup_store [OF look]
  have s: "refs repo1 = refs repo" "fault repo1 = fault repo" by simp_all
  show ?thesis
    unfolding move_unfold [OF look cstr opt]
    using quiet
    by (auto simp: git_branch_move_def Let_def ref_at_def map_of_filter_key s
          split: option.splits)
qed

theorem move_targets_local_namespace_witness:
  "fst (rb_git_branch_collection_move example_repo [RString ''refs/remotes/x'', RString ''w'']) =
     Inr (RuggedBranch \<lparr>ref_name = ''refs/heads/w'', ref_target = Direct ''c2''\<rparr>)
   \<and> fst (rb_git_branch_collection_move example_repo [RString ''refs/remotes/x'', RString ''x'']) =
     Inl (RuggedError GIT_EEXISTS)
   \<and> fst (rb_git_branch_collection_move example_repo
           [RuggedBranch \<lparr>ref_name = ''refs/remotes/x'', ref_target = Direct ''c2''\<rparr>,
            RString ''x'', Qtrue]) =
     Inr (RuggedBranch \<lparr>ref_name = ''refs/heads/x'', ref_target = Direct ''c2''\<rparr>)"
  using
    move_targets_local_namespace [of example_repo "RString ''refs/remotes/x''"
      "\<lparr>ref_name = ''refs/remotes/x'', ref_target = Direct ''c2''\<rparr>"
      "example_repo\<lparr>journal := [RefGet ''refs/remotes/x'']\<rparr>" "''w''" "[]"]
    move_targets_local_namespace [of example_repo "RString ''refs/remotes/x''"
      "\<lparr>ref_name = ''refs/remotes/x'', ref_target = Direct ''c2''\<rparr>"
      "example_repo\<lparr>journal := [RefGet ''refs/remotes/x'']\<rparr>" "''x''" "[]"]
    move_targets_local_namespace [of example_repo
      "RuggedBranch \<lparr>ref_name = ''refs/remotes/x'', ref_target = Direct ''c2''\<rparr>"
      "\<lparr>ref_name = ''refs/remotes/x'', ref_target = Direct ''c2''\<rparr>"
      "example_repo\<lparr>journal := [RefGet ''refs/remotes/x'']\<rparr>" "''x''" "[Qtrue]"]
  by (simp add: rugged_branch_lookup_def example_defs)

subsection \<open>Iteration\<close>

lemma git_branch_next_effect:
  assumes "git_branch_next iter repo = (r, iter1, repo1)"
  shows "(\<exists>k. journal repo1 = journal repo @ [IterNext k]) \<and>
     cursors repo1 = cursors repo \<and> refs repo1 = refs repo \<and> fault repo1 = fault repo \<and>
     odb repo1 = odb repo \<and> (iter1 = None \<longleftrightarrow> iter = None) \<and>
     (iter \<noteq> None \<longrightarrow> unset_pointer_uses repo1 = unset_pointer_uses repo)"
  using assms
  by (auto simp: git_branch_next_def Let_def split: option.splits list.splits)

lemma each_branch_loop_effect:
  "each_branch_loop project blk exception error iter st repo =
       (exception', error', iter', st', repo') \<Longrightarrow>
   (\<exists>ks. journal repo' = journal repo @ map IterNext ks) \<and>
   cursors repo' = cursors repo \<and> refs repo' = refs repo \<and> fault repo' = fault repo \<and>
   odb repo' = odb repo \<and> (iter' = None \<longleftrightarrow> iter = None) \<and>
   (iter \<noteq> None \<longrightarrow> unset_pointer_uses repo' = unset_pointer_uses repo)"
proof (induction project blk exception error iter st repo rule: each_branch_loop.induct)
  case (1 project blk exception error iter st repo)
  note unf = each_branch_loop.simps [of project blk exception error iter st repo]
  show ?case
  proof (cases "exception \<noteq> 0")
    case True
    with "1.prems" [unfolded unf] have "repo' = repo" "iter' = iter" by simp_all
    then show ?thesis by (simp add: exI [of _ "[]"])
  next
    case False
    obtain r iter1 repo1 where n: "git_branch_next iter repo = (r, iter1, repo1)"
      by (cases "git_branch_next iter repo")
    from git_branch_next_effect [OF n]
    obtain k where j1: "journal repo1 = journal repo @ [IterNext k]"
      and s1: "cursors repo1 = cursors repo" "refs repo1 = refs repo"
        "fault repo1 = fault repo" "odb repo1 = odb repo" "iter1 = None \<longleftrightarrow> iter = None"
        "iter \<noteq> None \<longrightarrow> unset_pointer_uses repo1 = unset_pointer_uses repo"
      by blast
    show ?thesis
    proof (cases r)
      case (Inl e)
      with False n "1.prems" [unfolded unf] have "repo' = repo1" "iter' = iter1" by simp_all
      with j1 s1 show ?thesis by (simp add: exI [of _ "[k]"])
    next
      case (Inr bt)
      obtain branch branch_type where bt: "bt = (branch, branch_type)" by (cases bt)
      obtain exception1 st1 where
        y: "rb_protect_rb_yield blk (project branch) st = (exception1, st1)"
        by (cases "rb_protect_rb_yield blk (project branch) st")
      from False n Inr bt y "1.prems" [unfolded unf]
      have rec: "each_branch_loop project blk exception1 (Inr ()) iter1 st1 repo1 =
          (exception', error', iter', st', repo')"
        by simp
      from "1.IH" [OF False n [symmetric] Inr bt [symmetric] refl refl y [symmetric] rec]
      obtain ks where j2: "journal repo' = journal repo1 @ map IterNext ks"
        and s2: "cursors repo' = cursors repo1" "refs repo' = refs repo1"
          "fault repo' = fault repo1" "odb repo' = odb repo1" "iter' = None \<longleftrightarrow> iter1 = None"
          "iter1 \<noteq> None \<longrightarrow> unset_pointer_uses repo' = unset_pointer_uses repo1"
        by blast
      from j1 j2 have "journal repo' = journal repo @ map IterNext (k # ks)"
        by simp
      then have "\<exists>ks. journal repo' = journal repo @ map IterNext ks"
        by blast
      with s1 s2 show ?thesis by simp
    qed
  qed
qed

lemma each_branch_loop_unset:
  "each_branch_loop project blk 0 error None st repo =
     (0, Inl GIT_ERROR, None, st,
      repo\<lparr>journal := journal repo @ [IterNext 0],
           unset_pointer_uses := unset_pointer_uses repo + 1\<rparr>)"
  by (simp add: each_branch_loop.simps [of project blk 0 error None st repo]
        git_branch_next_def record_op_def)

lemma each_branch_with_block:
  assumes "git_branch_iterator_new repo list_flags = (error0, iter, repo1)"
    and "each_branch_loop
             (if branch_names_only
              then (\<lambda>branch. rb_str_new_utf8 (git_reference_shorthand branch))
              else rugged_branch_new)
             blk 0 error0 iter st repo1 =
           (exception, error, iter1, st1, repo2)"
    and "(if rb_filter \<noteq> Qnil then parse_branch_type rb_filter
          else Inr GIT_BRANCH_LOCAL_OR_REMOTE) = Inr list_flags"
    and "rb_scan_args_01 argv = Inr rb_filter"
  shows "each_branch repo argv (Some blk) st branch_names_only =
     (if exception \<noteq> 0 then Inl (JumpTag exception)
      else if error \<noteq> Inl GIT_ITEROVER then
        (case rugged_exception_check error of Inl exc \<Rightarrow> Inl exc | Inr u \<Rightarrow> Inr Qnil)
      else Inr Qnil,
      st1, git_branch_iterator_free iter1 repo2)"
  using assms
  by (cases branch_names_only)
     (auto simp: each_branch_def Let_def split: prod.splits sum.splits)

lemma each_branch_journal:
  assumes "(if rb_filter \<noteq> Qnil then parse_branch_type rb_filter
            else Inr GIT_BRANCH_LOCAL_OR_REMOTE) = Inr list_flags"
    and "rb_scan_args_01 argv = Inr rb_filter"
  shows "\<exists>ks. journal (snd (snd (each_branch repo argv (Some blk) st branch_names_only))) =
           journal repo @ IterOpen list_flags # map IterNext ks @ [IterClose]"
    and "cursors (snd (snd (each_branch repo argv (Some blk) st branch_names_only))) =
           cursors repo"
    and "fault repo (IterOpen list_flags) = None \<Longrightarrow>
         unset_pointer_uses (snd (snd (each_branch repo argv (Some blk) st branch_names_only))) =
           unset_pointer_uses repo"
proof -
  let ?project = "if branch_names_only
              then (\<lambda>branch. rb_str_new_utf8 (git_reference_shorthand branch))
              else rugged_branch_new"
  obtain error0 iter repo1 where
    new: "git_branch_iterator_new repo list_flags = (error0, iter, repo1)"
    by (cases "git_branch_iterator_new repo list_flags")
  obtain exception error iter1 st1 repo2 where
    loop: "each_branch_loop ?project blk 0 error0 iter st repo1 =
             (exception, error, iter1, st1, repo2)"
    by (cases "each_branch_loop ?project blk 0 error0 iter st repo1")
  from new have n1: "journal repo1 = journal repo @ [IterOpen list_flags]"
    and n2: "cursors repo1 = (if iter = None then cursors repo else cursors repo + 1)"
    and n3: "unset_pointer_uses repo1 = unset_pointer_uses repo"
    and n4: "fault repo (IterOpen list_flags) = None \<longrightarrow> iter \<noteq> None"
    by (auto simp: git_branch_iterator_new_def Let_def split: option.splits)
  from each_branch_loop_effect [OF loop]
  obtain ks where j: "journal repo2 = journal repo1 @ map IterNext ks"
    and c: "cursors repo2 = cursors repo1"
    and i: "iter1 = None \<longleftrightarrow> iter = None"
    and u: "iter \<noteq> None \<longrightarrow> unset_pointer_uses repo2 = unset_pointer_uses repo1"
    by blast
  have e: "snd (snd (each_branch repo argv (Some blk) st branch_names_only)) =
      git_branch_iterator_free iter1 repo2"
    by (simp add: each_branch_with_block [OF new loop assms])
  from j n1 have "journal (git_branch_iterator_free iter1 repo2) =
      journal repo @ IterOpen list_flags # map IterNext ks @ [IterClose]"
    by (simp add: git_branch_iterator_free_def split: option.splits)
  with e show "\<exists>ks. journal (snd (snd (each_branch repo argv (Some blk) st branch_names_only))) =
           journal repo @ IterOpen list_flags # map IterNext ks @ [IterClose]"
    by auto
  from c n2 i e show "cursors (snd (snd (each_branch repo argv (Some blk) st branch_names_only))) =
           cursors repo"
    by (auto simp: git_branch_iterator_free_def split: option.splits)
  assume "fault repo (IterOpen list_flags) = None"
  with n4 have "iter \<noteq> None" by simp
  with u i n3 e show
    "unset_pointer_uses (snd (snd (each_branch repo argv (Some blk) st branch_names_only))) =
           unset_pointer_uses repo"
    by (auto simp: git_branch_iterator_free_def split: option.splits)
qed

lemma each_branch_early:
  "rb_scan_args_01 argv = Inl exc \<Longrightarrow>
     each_branch repo argv block st branch_names_only = (Inl exc, st, repo)"
  "rb_scan_args_01 argv = Inr rb_filter \<Longrightarrow>
     each_branch repo argv None st branch_names_only =
       (Inr (REnumerator (if branch_names_only then ''each_name'' else ''each'') rb_filter),
        st, repo)"
  "rb_scan_args_01 argv = Inr rb_filter \<Longrightarrow> rb_filter \<noteq> Qnil \<Longrightarrow>
   parse_branch_type rb_filter = Inl exc \<Longrightarrow>
     each_branch repo argv (Some blk) st branch_names_only = (Inl exc, st, repo)"
  by (simp_all add: each_branch_def Let_def)

text \<open>
  Once the store has opened the cursor, the call uses no unset pointer, ends with as
  many open cursors as it started with, and closes the cursor as its last access to the
  store: after exhaustion, after a store error of a step, and after an exception of the
  block.
\<close>

lemma each_branch_acquired_cursor_released:
  assumes "rb_scan_args_01 argv = Inr rb_filter"
    and "(if rb_filter \<noteq> Qnil then parse_branch_type rb_filter
          else Inr GIT_BRANCH_LOCAL_OR_REMOTE) = Inr list_flags"
    and "fault repo (IterOpen list_flags) = None"
  shows "unset_pointer_uses (snd (snd (each_branch repo argv (Some blk) st branch_names_only))) =
           unset_pointer_uses repo
     \<and> cursors (snd (snd (each_branch repo argv (Some blk) st branch_names_only))) =
           cursors repo
     \<and> (\<exists>ks. journal (snd (snd (each_branch repo argv (Some blk) st branch_names_only))) =
           journal repo @ IterOpen list_flags # map IterNext ks @ [IterClose])"
  using each_branch_journal [OF assms(2) assms(1), of repo blk st branch_names_only] assms(3)
  by simp

lemma each_branch_exit_paths_example:
  "fst (each_branch example_repo [] (Some collect_block) [] False) = Inr Qnil
   \<and> cursors (snd (snd (each_branch example_repo [] (Some collect_block) [] False))) = 0
   \<and> fst (each_branch faulty_repo [] (Some collect_block) [] True) = Inl (RuggedError GIT_ERROR)
   \<and> cursors (snd (snd (each_branch faulty_repo [] (Some collect_block) [] True))) = 0
   \<and> fst (each_branch example_repo [] (Some raising_block) [] False) = Inl (JumpTag 6)
   \<and> cursors (snd (snd (each_branch example_repo [] (Some raising_block) [] False))) = 0"
  by (simp add: each_branch_def each_branch_loop.simps git_branch_iterator_new_def
       git_branch_next_def git_branch_iterator_free_def rb_protect_rb_yield_def
       collect_block_def raising_block_def rugged_exception_check_def rugged_branch_new_def
       rb_str_new_utf8_def git_reference_shorthand_def example_defs Let_def)

text \<open>
  When the store fails to open the cursor, the call does not stop: the code that
  \<open>git_branch_iterator_new\<close> returned is overwritten unread, the loop steps the pointer
  that was never set, and the pointer is freed.
\<close>

lemma each_branch_open_failure:
  assumes "rb_scan_args_01 argv = Inr rb_filter"
    and "(if rb_filter \<noteq> Qnil then parse_branch_type rb_filter
          else Inr GIT_BRANCH_LOCAL_OR_REMOTE) = Inr list_flags"
    and "fault repo (IterOpen list_flags) = Some e"
  shows "snd (snd (each_branch repo argv (Some blk) st branch_names_only)) =
           repo\<lparr>journal := journal repo @ [IterOpen list_flags, IterNext 0, IterClose],
                unset_pointer_uses := unset_pointer_uses repo + 2\<rparr>"
proof -
  let ?project = "if branch_names_only
              then (\<lambda>branch. rb_str_new_utf8 (git_reference_shorthand branch))
              else rugged_branch_new"
  let ?repo1 = "record_op (IterOpen list_flags) repo"
  from assms(3) have new: "git_branch_iterator_new repo list_flags = (Inl e, None, ?repo1)"
    by (simp add: git_branch_iterator_new_def)
  note loop = each_branch_loop_unset [of ?project blk "Inl e" st ?repo1]
  show ?thesis
    by (simp add: each_branch_with_block [OF new loop assms(2) assms(1)]
          git_branch_iterator_free_def record_op_def)
qed

text \<open>
  Claim C10. The claim asks that the cursor be released on every exit path of a
  block-driven iteration, a store error included. The source does not keep this where
  the store error is the failure to open the cursor: on the store below, whose open
  fails, \<open>each\<close> with a block goes on to step and to free an iterator pointer that no
  call has set, two uses that the C language leaves undefined, instead of raising the
  error of the open. Every other return code of the engine in the file is handed to
  \<open>rugged_exception_check\<close> before its result is used.
\<close>

theorem each_branch_failed_open_unchecked:
  "journal (snd (snd (each_branch failing_open_repo [] (Some collect_block) [] False))) =
     [IterOpen GIT_BRANCH_LOCAL_OR_REMOTE, IterNext 0, IterClose]
   \<and> unset_pointer_uses
       (snd (snd (each_branch failing_open_repo [] (Some collect_block) [] False))) = 2"
  by (simp add: each_branch_def each_branch_loop.simps git_branch_iterator_new_def
       git_branch_next_def git_branch_iterator_free_def rugged_exception_check_def
       example_defs Let_def)

subsection \<open>The filter of an iteration\<close>

text \<open>
  Claim C8, as the source has it. \<open>parse_branch_type\<close> maps the symbol \<open>:local\<close> to
  the Local and \<open>:remote\<close> to the Remote branch type; any other symbol raises the
  TypeError that names the accepted values, and a value that is no symbol raises the
  TypeError of the Symbol type check. In a call of \<open>each\<close> or \<open>each_name\<close> with a
  block, an absent or nil filter opens the cursor on local and remote branches, a filter
  that \<open>parse_branch_type\<close> accepts opens it on the parsed type, and a filter it
  rejects raises its exception before the store is touched. In a call without a block no
  filter is examined: the call returns the enumerator of the method and the filter.
\<close>

theorem branch_filter_values:
  "parse_branch_type (RSymbol ''local'') = Inr GIT_BRANCH_LOCAL
   \<and> parse_branch_type (RSymbol ''remote'') = Inr GIT_BRANCH_REMOTE
   \<and> (s \<noteq> ''local'' \<longrightarrow> s \<noteq> ''remote'' \<longrightarrow>
        parse_branch_type (RSymbol s) =
          Inl (TypeError ''Invalid branch filter. Expected `:remote`, `:local` or `nil`''))
   \<and> (rb_type v \<noteq> T_SYMBOL \<longrightarrow>
        parse_branch_type v = Inl (TypeError ''wrong argument type (expected Symbol)''))
   \<and> (argv = [] \<or> argv = [Qnil] \<longrightarrow>
        (\<exists>ks. journal (snd (snd (each_branch repo argv (Some blk) st branch_names_only))) =
           journal repo @ IterOpen GIT_BRANCH_LOCAL_OR_REMOTE # map IterNext ks @ [IterClose]))
   \<and> (rb_filter \<noteq> Qnil \<longrightarrow> parse_branch_type rb_filter = Inr list_flags \<longrightarrow>
        (\<exists>ks. journal (snd (snd (each_branch repo [rb_filter] (Some blk) st branch_names_only))) =
           journal repo @ IterOpen list_flags # map IterNext ks @ [IterClose]))
   \<and> (rb_filter \<noteq> Qnil \<longrightarrow> parse_branch_type rb_filter = Inl exc \<longrightarrow>
        each_branch repo [rb_filter] (Some blk) st branch_names_only = (Inl exc, st, repo))
   \<and> each_branch repo [rb_filter] None st branch_names_only =
        (Inr (REnumerator (if branch_names_only then ''each_name'' else ''each'') rb_filter),
         st, repo)"
proof (intro conjI impI)
  show "parse_branch_type (RSymbol ''local'') = Inr GIT_BRANCH_LOCAL"
    by (simp add: parse_branch_type_def Check_Type_def rb_intern_def)
  show "parse_branch_type (RSymbol ''remote'') = Inr GIT_BRANCH_REMOTE"
    by (simp add: parse_branch_type_def Check_Type_def rb_intern_def)
  show "parse_branch_type (RSymbol s) =
          Inl (TypeError ''Invalid branch filter. Expected `:remote`, `:local` or `nil`'')"
    if "s \<noteq> ''local''" "s \<noteq> ''remote''"
    using that by (simp add: parse_branch_type_def Check_Type_def rb_intern_def)
  show "parse_branch_type v = Inl (TypeError ''wrong argument type (expected Symbol)'')"
    if "rb_type v \<noteq> T_SYMBOL"
    using that by (simp add: parse_branch_type_def Check_Type_def)
  show "\<exists>ks. journal (snd (snd (each_branch repo argv (Some blk) st branch_names_only))) =
           journal repo @ IterOpen GIT_BRANCH_LOCAL_OR_REMOTE # map IterNext ks @ [IterClose]"
    if "argv = [] \<or> argv = [Qnil]"
    using that each_branch_journal(1) [of Qnil GIT_BRANCH_LOCAL_OR_REMOTE argv repo blk st branch_names_only]
    by auto
  show "\<exists>ks. journal (snd (snd (each_branch repo [rb_filter] (Some blk) st branch_names_only))) =
           journal repo @ IterOpen list_flags # map IterNext ks @ [IterClose]"
    if "rb_filter \<noteq> Qnil" "parse_branch_type rb_filter = Inr list_flags"
    using that each_branch_journal(1) [of rb_filter list_flags "[rb_filter]" repo blk st branch_names_only]
    by auto
  show "each_branch repo [rb_filter] (Some blk) st branch_names_only = (Inl exc, st, repo)"
    if "rb_filter \<noteq> Qnil" "parse_branch_type rb_filter = Inl exc"
    using that by (simp add: each_branch_early(3))
  show "each_branch repo [rb_filter] None st branch_names_only =
        (Inr (REnumerator (if branch_names_only then ''each_name'' else ''each'') rb_filter),
         st, repo)"
    by (simp add: each_branch_early(2))
qed

theorem branch_filter_values_witness:
  "parse_branch_type (RSymbol ''bogus'') =
     Inl (TypeError ''Invalid branch filter. Expected `:remote`, `:local` or `nil`'')
   \<and> parse_branch_type (RFixnum 3) = Inl (TypeError ''wrong argument type (expected Symbol)'')
   \<and> journal (snd (snd (each_branch example_repo [] (Some collect_block) [] False))) =
       [IterOpen GIT_BRANCH_LOCAL_OR_REMOTE, IterNext 0, IterNext 1, IterNext 2, IterNext 3,
        IterClose]
   \<and> journal (snd (snd (each_branch example_repo [RSymbol ''remote''] (Some collect_block) [] False))) =
       [IterOpen GIT_BRANCH_REMOTE, IterNext 0, IterNext 1, IterNext 2, IterClose]
   \<and> fst (snd (each_branch example_repo [] (Some collect_block) [] True)) =
       [RString ''x'', RString ''x'', RString ''origin/y'']
   \<and> fst (snd (each_branch example_repo [RSymbol ''local''] (Some collect_block) [] True)) =
       [RString ''x'']
   \<and> each_branch example_repo [RSymbol ''bogus''] (Some collect_block) [] False =
       (Inl (TypeError ''Invalid branch filter. Expected `:remote`, `:local` or `nil`''), [],
        example_repo)"
  using
    branch_filter_values [of "''bogus''" "RFixnum 3" "[]" example_repo collect_block "[]" False
      "RSymbol ''remote''" GIT_BRANCH_REMOTE]
    branch_filter_values [of "''bogus''" "RFixnum 3" "[]" example_repo collect_block "[]" False
      "RSymbol ''bogus''" _
      "TypeError ''Invalid branch filter. Expected `:remote`, `:local` or `nil`''"]
  by (simp add: each_branch_def each_branch_loop.simps git_branch_iterator_new_def
       git_branch_next_def git_branch_iterator_free_def rb_protect_rb_yield_def
       collect_block_def rugged_exception_check_def rugged_branch_new_def
       parse_branch_type_def Check_Type_def rb_intern_def
       rb_str_new_utf8_def git_reference_shorthand_def example_defs Let_def)

text \<open>
  The claim as stated fails twice: the string \<open>"local"\<close> as the filter of a
  block-driven \<open>each\<close> raises the TypeError of the type check, whose message names the
  expected built-in type and not the accepted values; and the symbol \<open>:bogus\<close> as
  the filter of \<open>each\<close> without a block raises nothing.
\<close>

theorem branch_filter_counterexample:
  "fst (each_branch example_repo [RString ''local''] (Some collect_block) [] False) =
     Inl (TypeError ''wrong argument type (expected Symbol)'')
   \<and> fst (each_branch example_repo [RSymbol ''bogus''] (None :: (VALUE list) rb_block option) [] False) =
     Inr (REnumerator ''each'' (RSymbol ''bogus''))"
  by (simp add: each_branch_def parse_branch_type_def Check_Type_def)

subsection \<open>Names and handles\<close>

lemma delete_resolved:
  assumes look: "rugged_branch_lookup repo w = (Inr (Inr branch), repo1)"
    and quiet: "fault repo (RefDelete (ref_name branch)) = None"
  shows "rb_git_branch_collection_delete repo w =
     (Inr Qnil,
      repo1\<lparr>journal := journal repo1 @ [RefDelete (ref_name branch)],
            refs := filter (\<lambda>(n, t). n \<noteq> ref_name branch) (refs repo)\<rparr>)"
proof -
  from rugged_branch_lookup_store [OF look]
  have s: "refs repo1 = refs repo" "fault repo1 = fault repo" by simp_all
  with quiet show ?thesis
    by (simp add: rb_git_branch_collection_delete_def look rugged_exception_check_def
          git_branch_delete_def record_op_def Let_def)
qed

lemma move_resolved:
  assumes look: "rugged_branch_lookup repo w = (Inr (Inr branch), repo1)"
    and cstr: "CHR 0x00 \<notin> set new_name"
    and opt: "opt = [] \<or> opt = [Qnil] \<or> opt = [Qfalse] \<or> opt = [Qtrue]"
    and quiet: "fault repo
        (RefRename (ref_name branch) (''refs/heads/'' @ new_name) (opt = [Qtrue])) = None"
    and free: "ref_at repo (''refs/heads/'' @ new_name) = None \<or> opt = [Qtrue]"
  shows "rb_git_branch_collection_move repo (w # RString new_name # opt) =
     (Inr (RuggedBranch
             \<lparr>ref_name = ''refs/heads/'' @ new_name, ref_target = ref_target branch\<rparr>),
      repo1\<lparr>journal := journal repo1 @
               [RefRename (ref_name branch) (''refs/heads/'' @ new_name) (opt = [Qtrue])],
            refs := (''refs/heads/'' @ new_name, ref_target branch) #
              filter (\<lambda>(n, t). n \<noteq> ref_name branch \<and> n \<noteq> ''refs/heads/'' @ new_name)
                (refs repo)\<rparr>)"
proof -
  from rugged_branch_lookup_store [OF look]
  have s: "refs repo1 = refs repo" "fault repo1 = fault repo" by simp_all
  from free have "map_of (refs repo) (''refs/heads/'' @ new_name) = None \<or> opt = [Qtrue]"
    by (auto simp: ref_at_def split: option.splits)
  with quiet s show ?thesis
    unfolding move_unfold [OF look cstr opt]
    by (auto simp: git_branch_move_def record_op_def Let_def)
qed

lemma handle_lookup:
  assumes "rb_obj_is_kind_of_RuggedBranch h" "canonical_name h = RString q"
    "CHR 0x00 \<notin> set q"
  shows "rugged_branch_lookup repo h =
        (Inr (fst (git_reference_lookup repo q)), repo\<lparr>journal := journal repo @ [RefGet q]\<rparr>)"
proof -
  obtain r repo1 where l: "git_reference_lookup repo q = (r, repo1)"
    by (cases "git_reference_lookup repo q")
  then have "repo1 = record_op (RefGet q) repo"
    by (rule git_reference_lookup_state)
  with assms l show ?thesis
    by (simp add: rugged_branch_lookup_def record_op_def)
qed

lemma handle_lookup_found:
  assumes "rb_obj_is_kind_of_RuggedBranch h" "canonical_name h = RString q"
    "CHR 0x00 \<notin> set q" "fault repo (RefGet q) = None" "ref_at repo q = Some branch"
  shows "rugged_branch_lookup repo h =
        (Inr (Inr branch), repo\<lparr>journal := journal repo @ [RefGet q]\<rparr>)"
    and "ref_name branch = q"
  using assms
  by (auto simp: handle_lookup git_reference_lookup_quiet ref_at_def split: option.splits)

text \<open>
  Claim C9, as the source has it. \<open>delete\<close> and \<open>move\<close> accept a String or a
  branch handle: whenever the resolution of such an argument finds a reference, \<open>delete\<close>
  has the engine delete that reference and returns nil, and \<open>move\<close> has the engine
  rename it to \<open>refs/heads/<new_name>\<close> and returns the new branch (the store carrying
  out the write, and the destination free or force given). The resolution of a handle
  whose \<open>canonical_name\<close> is the string \<open>q\<close> reads \<open>q\<close> verbatim from the store,
  in one access, so that \<open>delete\<close> and \<open>move\<close> on a handle of an existing reference
  \<open>q\<close> read \<open>q\<close> and then delete or rename \<open>q\<close>; when \<open>q\<close> is qualified, as the
  name of every branch is, they are \<open>delete\<close> and \<open>move\<close> on the string \<open>q\<close>. An
  argument that is neither a String nor a branch handle makes \<open>delete\<close> and \<open>move\<close>
  raise a TypeError without touching the store. \<open>[]\<close> raises the TypeError of its
  String type check on every argument that is no String, a branch handle included.
\<close>

theorem name_or_handle_acceptance:
  "(rb_obj_is_kind_of_RuggedBranch h \<longrightarrow> canonical_name h = RString q \<longrightarrow>
    CHR 0x00 \<notin> set q \<longrightarrow>
      rugged_branch_lookup repo h =
        (Inr (fst (git_reference_lookup repo q)), repo\<lparr>journal := journal repo @ [RefGet q]\<rparr>)
      \<and> (qualified_name q \<longrightarrow>
           rb_git_branch_collection_delete repo h =
             rb_git_branch_collection_delete repo (RString q) \<and>
           rb_git_branch_collection_move repo (h # rest) =
             rb_git_branch_collection_move repo (RString q # rest)))
   \<and> (\<not> rb_obj_is_kind_of_RuggedBranch v \<longrightarrow> rb_type v \<noteq> T_STRING \<longrightarrow>
        rb_git_branch_collection_delete repo v =
          (Inl (TypeError ''Expecting a String or Rugged::Branch instance''), repo)
        \<and> (rb_type m = T_STRING \<longrightarrow> length opt \<le> 1 \<longrightarrow>
             rb_git_branch_collection_move repo (v # m # opt) =
               (Inl (TypeError ''Expecting a String or Rugged::Branch instance''), repo)))
   \<and> (rb_type v \<noteq> T_STRING \<longrightarrow>
        rb_git_branch_collection_aref repo v =
          (Inl (TypeError ''wrong argument type (expected String)''), repo))
   \<and> (rb_obj_is_kind_of_RuggedBranch h \<longrightarrow> canonical_name h = RString q \<longrightarrow>
      CHR 0x00 \<notin> set q \<longrightarrow> fault repo (RefGet q) = None \<longrightarrow>
      ref_at repo q = Some branch \<longrightarrow>
        (fault repo (RefDelete q) = None \<longrightarrow>
           rb_git_branch_collection_delete repo h =
             (Inr Qnil,
              repo\<lparr>journal := journal repo @ [RefGet q, RefDelete q],
                   refs := filter (\<lambda>(n, t). n \<noteq> q) (refs repo)\<rparr>))
        \<and> (CHR 0x00 \<notin> set new_name \<longrightarrow>
           force_arg = [] \<or> force_arg = [Qnil] \<or> force_arg = [Qfalse] \<or> force_arg = [Qtrue] \<longrightarrow>
           fault repo (RefRename q (''refs/heads/'' @ new_name) (force_arg = [Qtrue])) = None \<longrightarrow>
           ref_at repo (''refs/heads/'' @ new_name) = None \<or> force_arg = [Qtrue] \<longrightarrow>
             rb_git_branch_collection_move repo (h # RString new_name # force_arg) =
               (Inr (RuggedBranch
                       \<lparr>ref_name = ''refs/heads/'' @ new_name, ref_target = ref_target branch\<rparr>),
                repo\<lparr>journal := journal repo @
                       [RefGet q,
                        RefRename q (''refs/heads/'' @ new_name) (force_arg = [Qtrue])],
                     refs := (''refs/heads/'' @ new_name, ref_target branch) #
                       filter (\<lambda>(n, t). n \<noteq> q \<and> n \<noteq> ''refs/heads/'' @ new_name)
                         (refs repo)\<rparr>)))
   \<and> (rb_type w = T_STRING \<or> rb_obj_is_kind_of_RuggedBranch w \<longrightarrow>
      rugged_branch_lookup repo w = (Inr (Inr found), repo1) \<longrightarrow>
        (fault repo (RefDelete (ref_name found)) = None \<longrightarrow>
           rb_git_branch_collection_delete repo w =
             (Inr Qnil,
              repo1\<lparr>journal := journal repo1 @ [RefDelete (ref_name found)],
                    refs := filter (\<lambda>(n, t). n \<noteq> ref_name found) (refs repo)\<rparr>))
        \<and> (CHR 0x00 \<notin> set new_name \<longrightarrow>
           force_arg = [] \<or> force_arg = [Qnil] \<or> force_arg = [Qfalse] \<or> force_arg = [Qtrue] \<longrightarrow>
           fault repo (RefRename (ref_name found) (''refs/heads/'' @ new_name)
                         (force_arg = [Qtrue])) = None \<longrightarrow>
           ref_at repo (''refs/heads/'' @ new_name) = None \<or> force_arg = [Qtrue] \<longrightarrow>
             rb_git_branch_collection_move repo (w # RString new_name # force_arg) =
               (Inr (RuggedBranch
                       \<lparr>ref_name = ''refs/heads/'' @ new_name, ref_target = ref_target found\<rparr>),
                repo1\<lparr>journal := journal repo1 @
                        [RefRename (ref_name found) (''refs/heads/'' @ new_name)
                           (force_arg = [Qtrue])],
                      refs := (''refs/heads/'' @ new_name, ref_target found) #
                        filter (\<lambda>(n, t). n \<noteq> ref_name found \<and> n \<noteq> ''refs/heads/'' @ new_name)
                          (refs repo)\<rparr>)))"
  (is "?handle \<and> ?other \<and> ?aref \<and> ?handle_engine \<and> ?resolved_engine")
proof (intro conjI)
  show ?handle
  proof (intro impI conjI)
    assume h: "rb_obj_is_kind_of_RuggedBranch h" "canonical_name h = RString q"
      "CHR 0x00 \<notin> set q"
    then show hl: "rugged_branch_lookup repo h =
        (Inr (fst (git_reference_lookup repo q)), repo\<lparr>journal := journal repo @ [RefGet q]\<rparr>)"
      by (rule handle_lookup)
    assume "qualified_name q"
    with h have eq: "rugged_branch_lookup repo (RString q) = rugged_branch_lookup repo h"
      by (simp add: hl rugged_branch_lookup_qualified record_op_def)
    then show "rb_git_branch_collection_delete repo h =
             rb_git_branch_collection_delete repo (RString q)"
      by (simp add: rb_git_branch_collection_delete_def)
    show "rb_git_branch_collection_move repo (h # rest) =
             rb_git_branch_collection_move repo (RString q # rest)"
    proof (cases rest)
      case Nil
      then show ?thesis by (simp add: rb_git_branch_collection_move_def)
    next
      case outer: (Cons b rest1)
      show ?thesis
      proof (cases rest1)
        case Nil
        with outer eq show ?thesis
          by (cases "Check_Type b T_STRING") (simp_all add: rb_git_branch_collection_move_def)
      next
        case (Cons c rest2)
        with outer eq show ?thesis
          by (cases rest2; cases "Check_Type b T_STRING")
             (simp_all add: rb_git_branch_collection_move_def)
      qed
    qed
  qed
  show ?other
  proof (intro impI conjI)
    assume v: "\<not> rb_obj_is_kind_of_RuggedBranch v" "rb_type v \<noteq> T_STRING"
    then have l: "rugged_branch_lookup repo v =
        (Inl (TypeError ''Expecting a String or Rugged::Branch instance''), repo)"
      by (simp add: rugged_branch_lookup_def)
    then show "rb_git_branch_collection_delete repo v =
          (Inl (TypeError ''Expecting a String or Rugged::Branch instance''), repo)"
      by (simp add: rb_git_branch_collection_delete_def)
    assume "rb_type m = T_STRING" "length opt \<le> 1"
    moreover then obtain c where "opt = [] \<or> opt = [c]"
      by (cases opt) auto
    ultimately show "rb_git_branch_collection_move repo (v # m # opt) =
               (Inl (TypeError ''Expecting a String or Rugged::Branch instance''), repo)"
      using l by (auto simp: rb_git_branch_collection_move_def Check_Type_def)
  qed
  show ?aref
    by (simp add: rb_git_branch_collection_aref_def Check_Type_def)
  show ?handle_engine
  proof (intro impI conjI)
    assume h: "rb_obj_is_kind_of_RuggedBranch h" "canonical_name h = RString q"
      "CHR 0x00 \<notin> set q" "fault repo (RefGet q) = None" "ref_at repo q = Some branch"
    note look = handle_lookup_found(1) [OF h] and name = handle_lookup_found(2) [OF h]
    show "rb_git_branch_collection_delete repo h =
             (Inr Qnil,
              repo\<lparr>journal := journal repo @ [RefGet q, RefDelete q],
                   refs := filter (\<lambda>(n, t). n \<noteq> q) (refs repo)\<rparr>)"
      if "fault repo (RefDelete q) = None"
      using that delete_resolved [OF look] by (simp add: name)
    show "rb_git_branch_collection_move repo (h # RString new_name # force_arg) =
               (Inr (RuggedBranch
                       \<lparr>ref_name = ''refs/heads/'' @ new_name, ref_target = ref_target branch\<rparr>),
                repo\<lparr>journal := journal repo @
                       [RefGet q,
                        RefRename q (''refs/heads/'' @ new_name) (force_arg = [Qtrue])],
                     refs := (''refs/heads/'' @ new_name, ref_target branch) #
                       filter (\<lambda>(n, t). n \<noteq> q \<and> n \<noteq> ''refs/heads/'' @ new_name)
                         (refs repo)\<rparr>)"
      if "CHR 0x00 \<notin> set new_name"
        "force_arg = [] \<or> force_arg = [Qnil] \<or> force_arg = [Qfalse] \<or> force_arg = [Qtrue]"
        "fault repo (RefRename q (''refs/heads/'' @ new_name) (force_arg = [Qtrue])) = None"
        "ref_at repo (''refs/heads/'' @ new_name) = None \<or> force_arg = [Qtrue]"
      using move_resolved [OF look that(1) that(2)] that(3) that(4) by (simp add: name)
  qed
  show ?resolved_engine
  proof (intro impI conjI)
    assume look: "rugged_branch_lookup repo w = (Inr (Inr found), repo1)"
    show "rb_git_branch_collection_delete repo w =
             (Inr Qnil,
              repo1\<lparr>journal := journal repo1 @ [RefDelete (ref_name found)],
                    refs := filter (\<lambda>(n, t). n \<noteq> ref_name found) (refs repo)\<rparr>)"
      if "fault repo (RefDelete (ref_name found)) = None"
      using that by (rule delete_resolved [OF look])
    show "rb_git_branch_collection_move repo (w # RString new_name # force_arg) =
               (Inr (RuggedBranch
                       \<lparr>ref_name = ''refs/heads/'' @ new_name, ref_target = ref_target found\<rparr>),
                repo1\<lparr>journal := journal repo1 @
                        [RefRename (ref_name found) (''refs/heads/'' @ new_name)
                           (force_arg = [Qtrue])],
                      refs := (''refs/heads/'' @ new_name, ref_target found) #
                        filter (\<lambda>(n, t). n \<noteq> ref_name found \<and> n \<noteq> ''refs/heads/'' @ new_name)
                          (refs repo)\<rparr>)"
      if "CHR 0x00 \<notin> set new_name"
        "force_arg = [] \<or> force_arg = [Qnil] \<or> force_arg = [Qfalse] \<or> force_arg = [Qtrue]"
        "fault repo (RefRename (ref_name found) (''refs/heads/'' @ new_name)
                         (force_arg = [Qtrue])) = None"
        "ref_at repo (''refs/heads/'' @ new_name) = None \<or> force_arg = [Qtrue]"
      using that by (rule move_resolved [OF look])
  qed
qed


theorem name_or_handle_acceptance_witness:
  "fst (rb_git_branch_collection_delete example_repo
         (RuggedBranch \<lparr>ref_name = ''refs/remotes/x'', ref_target = Direct ''c2''\<rparr>)) =
     fst (rb_git_branch_collection_delete example_repo (RString ''refs/remotes/x''))
   \<and> rugged_branch_lookup example_repo (BranchSubclass (RString ''refs/x'')) =
       (Inr (Inl GIT_ENOTFOUND), example_repo\<lparr>journal := [RefGet ''refs/x'']\<rparr>)
   \<and> rb_git_branch_collection_delete example_repo (RFixnum 7) =
       (Inl (TypeError ''Expecting a String or Rugged::Branch instance''), example_repo)
   \<and> rb_git_branch_collection_move example_repo [Qnil, RString ''w''] =
       (Inl (TypeError ''Expecting a String or Rugged::Branch instance''), example_repo)
   \<and> rb_git_branch_collection_aref example_repo (RSymbol ''x'') =
       (Inl (TypeError ''wrong argument type (expected String)''), example_repo)
   \<and> rb_git_branch_collection_delete example_repo
         (RuggedBranch \<lparr>ref_name = ''refs/remotes/x'', ref_target = Direct ''c2''\<rparr>) =
       (Inr Qnil,
        example_repo\<lparr>journal := [RefGet ''refs/remotes/x'', RefDelete ''refs/remotes/x''],
          refs := [(''refs/heads/x'', Direct ''c1''),
                   (''refs/remotes/origin/y'', Direct ''c2''),
                   (''HEAD'', Symbolic ''refs/heads/x'')]\<rparr>)
   \<and> rb_git_branch_collection_move example_repo
         [RuggedBranch \<lparr>ref_name = ''refs/remotes/x'', ref_target = Direct ''c2''\<rparr>,
          RString ''w''] =
       (Inr (RuggedBranch \<lparr>ref_name = ''refs/heads/w'', ref_target = Direct ''c2''\<rparr>),
        example_repo\<lparr>journal := [RefGet ''refs/remotes/x'',
                                  RefRename ''refs/remotes/x'' ''refs/heads/w'' False],
          refs := [(''refs/heads/w'', Direct ''c2''),
                   (''refs/heads/x'', Direct ''c1''),
                   (''refs/remotes/origin/y'', Direct ''c2''),
                   (''HEAD'', Symbolic ''refs/heads/x'')]\<rparr>)
   \<and> rb_git_branch_collection_delete example_repo (RString ''x'') =
       (Inr Qnil,
        example_repo\<lparr>journal := [RefGet ''refs/heads/x'', RefDelete ''refs/heads/x''],
          refs := [(''refs/remotes/x'', Direct ''c2''),
                   (''refs/remotes/origin/y'', Direct ''c2''),
                   (''HEAD'', Symbolic ''refs/heads/x'')]\<rparr>)
   \<and> rb_git_branch_collection_move example_repo [RString ''origin/y'', RString ''w''] =
       (Inr (RuggedBranch \<lparr>ref_name = ''refs/heads/w'', ref_target = Direct ''c2''\<rparr>),
        example_repo\<lparr>journal := [RefGet ''refs/heads/origin/y'',
                                  RefGet ''refs/remotes/origin/y'',
                                  RefRename ''refs/remotes/origin/y'' ''refs/heads/w'' False],
          refs := [(''refs/heads/w'', Direct ''c2''),
                   (''refs/heads/x'', Direct ''c1''),
                   (''refs/remotes/x'', Direct ''c2''),
                   (''HEAD'', Symbolic ''refs/heads/x'')]\<rparr>)"
proof -
  note t1 = name_or_handle_acceptance [of
      "RuggedBranch \<lparr>ref_name = ''refs/remotes/x'', ref_target = Direct ''c2''\<rparr>"
      "''refs/remotes/x''" example_repo "[]" "RFixnum 7" "RString ''w''" "[]"
      "\<lparr>ref_name = ''refs/remotes/x'', ref_target = Direct ''c2''\<rparr>" "''w''" "[]"
      "RString ''x''" "\<lparr>ref_name = ''refs/heads/x'', ref_target = Direct ''c1''\<rparr>"
      "example_repo\<lparr>journal := [RefGet ''refs/heads/x'']\<rparr>"]
  note t2 = name_or_handle_acceptance [of
      "BranchSubclass (RString ''refs/x'')" "''refs/x''" example_repo "[]" Qnil
      "RString ''w''" "[]"
      "\<lparr>ref_name = ''refs/x'', ref_target = Direct ''c2''\<rparr>" "''w''" "[]"
      "RString ''origin/y''"
      "\<lparr>ref_name = ''refs/remotes/origin/y'', ref_target = Direct ''c2''\<rparr>"
      "example_repo\<lparr>journal := [RefGet ''refs/heads/origin/y'',
                                  RefGet ''refs/remotes/origin/y'']\<rparr>"]
  note t3 = name_or_handle_acceptance [of
      "BranchSubclass (RString ''refs/x'')" "''refs/x''" example_repo "[]" "RSymbol ''x''"
      "RString ''w''" "[]"
      "\<lparr>ref_name = ''refs/x'', ref_target = Direct ''c2''\<rparr>" "''w''" "[]"
      "RString ''x''" "\<lparr>ref_name = ''refs/heads/x'', ref_target = Direct ''c1''\<rparr>"
      "example_repo\<lparr>journal := [RefGet ''refs/heads/x'']\<rparr>"]
  have c1: "fst (rb_git_branch_collection_delete example_repo
         (RuggedBranch \<lparr>ref_name = ''refs/remotes/x'', ref_target = Direct ''c2''\<rparr>)) =
     fst (rb_git_branch_collection_delete example_repo (RString ''refs/remotes/x''))"
    using t1 [THEN conjunct1]
    by (simp add: rugged_branch_lookup_def example_defs)
  have c2: "rugged_branch_lookup example_repo (BranchSubclass (RString ''refs/x'')) =
       (Inr (Inl GIT_ENOTFOUND), example_repo\<lparr>journal := [RefGet ''refs/x'']\<rparr>)"
    using t2 [THEN conjunct1]
    by (simp add: rugged_branch_lookup_def example_defs)
  have c3: "rb_git_branch_collection_delete example_repo (RFixnum 7) =
       (Inl (TypeError ''Expecting a String or Rugged::Branch instance''), example_repo)"
    using t1 [THEN conjunct2, THEN conjunct1]
    by (simp add: rugged_branch_lookup_def example_defs)
  have c4: "rb_git_branch_collection_move example_repo [Qnil, RString ''w''] =
       (Inl (TypeError ''Expecting a String or Rugged::Branch instance''), example_repo)"
    using t2 [THEN conjunct2, THEN conjunct1]
    by (simp add: rugged_branch_lookup_def example_defs)
  have c5: "rb_git_branch_collection_aref example_repo (RSymbol ''x'') =
       (Inl (TypeError ''wrong argument type (expected String)''), example_repo)"
    using t3 [THEN conjunct2, THEN conjunct2, THEN conjunct1]
    by (simp add: rugged_branch_lookup_def example_defs)
  have c6: "rb_git_branch_collection_delete example_repo
         (RuggedBranch \<lparr>ref_name = ''refs/remotes/x'', ref_target = Direct ''c2''\<rparr>) =
       (Inr Qnil,
        example_repo\<lparr>journal := [RefGet ''refs/remotes/x'', RefDelete ''refs/remotes/x''],
          refs := [(''refs/heads/x'', Direct ''c1''),
                   (''refs/remotes/origin/y'', Direct ''c2''),
                   (''HEAD'', Symbolic ''refs/heads/x'')]\<rparr>)"
    using t1 [THEN conjunct2, THEN conjunct2, THEN conjunct2, THEN conjunct1]
    by (simp add: rugged_branch_lookup_def example_defs)
  have c7: "rb_git_branch_collection_move example_repo
         [RuggedBranch \<lparr>ref_name = ''refs/remotes/x'', ref_target = Direct ''c2''\<rparr>,
          RString ''w''] =
       (Inr (RuggedBranch \<lparr>ref_name = ''refs/heads/w'', ref_target = Direct ''c2''\<rparr>),
        example_repo\<lparr>journal := [RefGet ''refs/remotes/x'',
                                  RefRename ''refs/remotes/x'' ''refs/heads/w'' False],
          refs := [(''refs/heads/w'', Direct ''c2''),
                   (''refs/heads/x'', Direct ''c1''),
                   (''refs/remotes/origin/y'', Direct ''c2''),
                   (''HEAD'', Symbolic ''refs/heads/x'')]\<rparr>)"
    using t1 [THEN conjunct2, THEN conjunct2, THEN conjunct2, THEN conjunct1]
    by (simp add: rugged_branch_lookup_def example_defs)
  have c8: "rb_git_branch_collection_delete example_repo (RString ''x'') =
       (Inr Qnil,
        example_repo\<lparr>journal := [RefGet ''refs/heads/x'', RefDelete ''refs/heads/x''],
          refs := [(''refs/remotes/x'', Direct ''c2''),
                   (''refs/remotes/origin/y'', Direct ''c2''),
                   (''HEAD'', Symbolic ''refs/heads/x'')]\<rparr>)"
    using t1 [THEN conjunct2, THEN conjunct2, THEN conjunct2, THEN conjunct2]
    by (simp add: rugged_branch_lookup_def example_defs)
  have c9: "rb_git_branch_collection_move example_repo [RString ''origin/y'', RString ''w''] =
       (Inr (RuggedBranch \<lparr>ref_name = ''refs/heads/w'', ref_target = Direct ''c2''\<rparr>),
        example_repo\<lparr>journal := [RefGet ''refs/heads/origin/y'',
                                  RefGet ''refs/remotes/origin/y'',
                                  RefRename ''refs/remotes/origin/y'' ''refs/heads/w'' False],
          refs := [(''refs/heads/w'', Direct ''c2''),
                   (''refs/heads/x'', Direct ''c1''),
                   (''refs/remotes/x'', Direct ''c2''),
                   (''HEAD'', Symbolic ''refs/heads/x'')]\<rparr>)"
    using t2 [THEN conjunct2, THEN conjunct2, THEN conjunct2, THEN conjunct2]
    by (simp add: rugged_branch_lookup_def example_defs)
  from c1 c2 c3 c4 c5 c6 c7 c8 c9 show ?thesis by simp
qed

text \<open>
  The claim as stated fails for \<open>[]\<close>: a handle of the existing branch
  \<open>refs/heads/x\<close> is rejected with a TypeError, while the name of the same branch is
  found.
\<close>

theorem aref_handle_counterexample:
  "rb_git_branch_collection_aref example_repo
     (RuggedBranch \<lparr>ref_name = ''refs/heads/x'', ref_target = Direct ''c1''\<rparr>) =
     (Inl (TypeError ''wrong argument type (expected String)''), example_repo)
   \<and> fst (rb_git_branch_collection_aref example_repo (RString ''refs/heads/x'')) =
       Inr (RuggedBranch \<lparr>ref_name = ''refs/heads/x'', ref_target = Direct ''c1''\<rparr>)"
  by (simp add: rb_git_branch_collection_aref_def Check_Type_def rugged_branch_lookup_def
        rugged_exception_check_def rugged_branch_new_def example_defs)

end
